theory Spec2Isabelle
  imports Main
begin

section \<open>Data model (types.ts)\<close>

text \<open>
  JavaScript strings are modelled as byte strings (their UTF-8 encoding), numbers that
  count or index as \<open>int\<close> or \<open>nat\<close>. The string-literal unions of the configuration
  interfaces are datatypes.
\<close>

datatype AuthType = AuthNone | Bearer | ApiKey | Basic

datatype HttpLibrary = Fetch | Axios

datatype LogLevel = Debug | Info | Warn | Error

record McpServerConfig =
  endpoint :: string
  timeout :: int
  retries :: int

record AuthenticationConfig =
  authType :: AuthType
  token :: string
  headerName :: string

record HttpClientConfig =
  library :: HttpLibrary
  userAgent :: string

record FeatureConfig =
  enabled :: bool
  includeWorkspaceContext :: bool
  includeActiveFile :: bool

record LoggingConfig =
  level :: LogLevel
  enableTelemetry :: bool

record ExtensionConfig =
  mcpServer :: McpServerConfig
  authentication :: AuthenticationConfig
  httpClient :: HttpClientConfig
  features :: FeatureConfig
  logging :: LoggingConfig

datatype McpErrorType =
    CONNECTION_ERROR | AUTHENTICATION_ERROR | TIMEOUT_ERROR | INVALID_RESPONSE
  | RATE_LIMITED | SERVER_ERROR | CONFIGURATION_ERROR

record ActiveFile =
  path :: string
  language :: string
  content :: "string option"

record Selection =
  selStart :: "nat \<times> nat"
  selEnd :: "nat \<times> nat"
  selText :: string

record RequestContext =
  workspaceRoot :: "string option"
  activeFile :: "ActiveFile option"
  selection :: "Selection option"
  openFiles :: "string list option"

record RequestMetadata =
  extensionVersion :: string
  vscodeVersion :: string
  copilotVersion :: "string option"

record McpRequest =
  prompt :: string
  sessionId :: string
  userId :: string
  timestamp :: int
  requestContext :: RequestContext
  metadata :: RequestMetadata

text \<open>The \<open>metadata\<close> object of a response is kept as its rendering by
  \<open>JSON.stringify(_, null, 2)\<close>, the only use the code makes of it.\<close>

record ResponseData =
  enhancedPrompt :: "string option"
  additionalContext :: "string option"
  suggestions :: "string list option"
  responseMetadata :: "string option"

record ResponseError =
  code :: string
  message :: string

record McpResponse =
  success :: bool
  data :: "ResponseData option"
  error :: "ResponseError option"

record ChatSession =
  ident :: string
  sessionUserId :: string
  startTime :: int
  lastActivity :: int
  messageCount :: int

datatype HttpMethod = GET | POST | PUT | DELETE

record HttpRequestOptions =
  httpMethod :: HttpMethod
  headers :: "string \<rightharpoonup> string"
  body :: "string option"
  requestTimeout :: int

text \<open>A value that can be thrown: an instance of the class \<open>McpError\<close> (type, message,
  and the optional details \<open>{status, code}\<close>), or any other \<open>Error\<close> (name, message).\<close>

datatype thrown =
    McpError McpErrorType string "(int option \<times> string option) option"
  | JsError string string

fun errorName :: "thrown \<Rightarrow> string" where
  "errorName (McpError ty msg details) = ''McpError''"
| "errorName (JsError name msg) = name"

fun errorMessage :: "thrown \<Rightarrow> string" where
  "errorMessage (McpError ty msg details) = msg"
| "errorMessage (JsError name msg) = msg"

text \<open>\<open>error.type\<close>: undefined on an error that is not an \<open>McpError\<close>.\<close>

fun errorType :: "thrown \<Rightarrow> McpErrorType option" where
  "errorType (McpError ty msg details) = Some ty"
| "errorType (JsError name msg) = None"

text \<open>What the editor host and the runtime supply: \<open>vscode.version\<close>, the versions in
  the installed extensions' \<open>packageJSON\<close>, the process environment, the workspace and
  the active editor, and \<open>JSON.stringify\<close> on a request.\<close>

record ActiveEditor =
  documentPath :: string
  documentLanguage :: string
  documentText :: string
  selectionIsEmpty :: bool
  editorSelection :: Selection

record Host =
  hostVersion :: string
  bridgePackageVersion :: "string option"
  copilotPackageVersion :: "string option"
  envUSERNAME :: "string option"
  envUSER :: "string option"
  workspaceFolder :: "string option"
  textDocuments :: "(bool \<times> string) list"
  activeTextEditor :: "ActiveEditor option"
  jsonStringify :: "McpRequest \<Rightarrow> string"

section \<open>Request headers (mcpService.ts, buildHeaders)\<close>

text \<open>\<open>extension?.packageJSON?.version || 'unknown'\<close>: a missing or empty version is
  \<open>'unknown'\<close>.\<close>

definition getExtensionVersion :: "Host \<Rightarrow> string" where
  "getExtensionVersion h =
     (case bridgePackageVersion h of
        None \<Rightarrow> ''unknown''
      | Some v \<Rightarrow> if v = [] then ''unknown'' else v)"

text \<open>\<open>Buffer.from(s).toString('base64')\<close> of Node: the standard alphabet with padding,
  three bytes to four characters.\<close>

definition base64Alphabet :: string where
  "base64Alphabet = ''ABCDEFGHIJKLMNOPQRSTUVWXYZabcdefghijklmnopqrstuvwxyz0123456789+/''"

definition sextet :: "nat \<Rightarrow> char" where
  "sextet n = base64Alphabet ! (n mod 64)"

fun base64 :: "string \<Rightarrow> string" where
  "base64 [] = []"
| "base64 [a] =
     (let n = (of_char a :: nat)
      in [sextet (n div 4), sextet ((n mod 4) * 16), CHR ''='', CHR ''=''])"
| "base64 [a, b] =
     (let n = (of_char a :: nat) * 256 + of_char b
      in [sextet (n div 1024), sextet (n div 16), sextet ((n mod 16) * 4), CHR ''=''])"
| "base64 (a # b # c # rest) =
     (let n = (of_char a :: nat) * 65536 + of_char b * 256 + of_char c
      in [sextet (n div 262144), sextet (n div 4096), sextet (n div 64), sextet n]
         @ base64 rest)"

text \<open>
  The header object is a plain object, modelled as a map from its own property names to
  their values. The assignment \<open>headers[name] = value\<close> creates or overwrites the own
  property \<open>name\<close>, with one exception: for the name \<open>__proto__\<close> it reaches the
  setter inherited from \<open>Object.prototype\<close>, which ignores a value that is not an
  object, so nothing is stored. The guard is \<open>type !== 'none' && token\<close>: an empty
  token is falsy.
\<close>

definition assignProperty ::
  "(string \<rightharpoonup> string) \<Rightarrow> string \<Rightarrow> string \<Rightarrow> (string \<rightharpoonup> string)" where
  "assignProperty obj name v = (if name = ''__proto__'' then obj else obj(name \<mapsto> v))"

definition buildHeaders :: "Host \<Rightarrow> ExtensionConfig \<Rightarrow> (string \<rightharpoonup> string)" where
  "buildHeaders h cfg =
     (let headers = [''Content-Type'' \<mapsto> ''application/json'',
                     ''User-Agent'' \<mapsto> userAgent (httpClient cfg),
                     ''X-VS-Code-Version'' \<mapsto> hostVersion h,
                     ''X-Extension-Version'' \<mapsto> getExtensionVersion h];
          auth = authentication cfg
      in if authType auth \<noteq> AuthNone \<and> token auth \<noteq> [] then
           (case authType auth of
              Bearer \<Rightarrow>
                assignProperty headers (headerName auth) (''Bearer '' @ token auth)
            | ApiKey \<Rightarrow> assignProperty headers (headerName auth) (token auth)
            | Basic \<Rightarrow>
                assignProperty headers (headerName auth)
                  (''Basic '' @ base64 (token auth))
            | AuthNone \<Rightarrow> headers)
         else headers)"

section \<open>Transport (mcpService.ts)\<close>

subsection \<open>Strings\<close>

text \<open>Decimal rendering of a number in a template string, and
  \<open>String.prototype.includes\<close>.\<close>

definition digitChar :: "nat \<Rightarrow> char" where
  "digitChar d = ''0123456789'' ! (d mod 10)"

fun showNat :: "nat \<Rightarrow> string" where
  "showNat n =
     (if n < 10 then [digitChar n]
      else showNat (n div 10) @ [digitChar (n mod 10)])"

declare showNat.simps [simp del]

definition showInt :: "int \<Rightarrow> string" where
  "showInt i = (if i < 0 then CHR ''-'' # showNat (nat (- i)) else showNat (nat i))"

fun startsWith :: "string \<Rightarrow> string \<Rightarrow> bool" where
  "startsWith s [] = True"
| "startsWith [] (c # cs) = False"
| "startsWith (x # xs) (c # cs) = (x = c \<and> startsWith xs cs)"

fun includesStr :: "string \<Rightarrow> string \<Rightarrow> bool" where
  "includesStr [] sub = (sub = [])"
| "includesStr (x # xs) sub = (startsWith (x # xs) sub \<or> includesStr xs sub)"

subsection \<open>The two HTTP clients\<close>

text \<open>
  One HTTP exchange is an input of the model. For axios it is what the library hands
  back: a response it resolved with (status, \<open>response.data\<close>; the library resolves
  exactly for the statuses \<open>validateStatus\<close> accepts), a rejection with an
  \<open>AxiosError\<close> (\<open>error.code\<close>, \<open>error.response?.status\<close>, \<open>error.message\<close>), or
  another thrown value. For fetch it is a response (status, statusText, the outcome of
  \<open>response.json()\<close>), an abort of the request's \<open>AbortController\<close>, or another
  rejection. The controller is aborted from two places in the source: the timer set
  with the configured timeout, and \<open>cancelRequests\<close>.
\<close>

record AxiosError =
  axiosCode :: "string option"
  axiosStatus :: "int option"
  axiosMessage :: string

datatype axios_result =
    AxiosResolved int McpResponse
  | AxiosRejected AxiosError
  | AxiosThrew thrown

datatype abort_cause = TimeoutElapsed | CancelRequests

datatype fetch_result =
    FetchResponse int string "thrown + McpResponse"
  | FetchAborted abort_cause
  | FetchRejected thrown

record AxiosConfig =
  axMethod :: HttpMethod
  axUrl :: string
  axHeaders :: "string \<rightharpoonup> string"
  axData :: "string option"
  axTimeout :: int
  validateStatus :: "int \<Rightarrow> bool"

text \<open>The network: the outcome of the \<open>n\<close>-th exchange of a send, for each client,
  given the arguments of the call.\<close>

record Network =
  axiosExchange :: "nat \<Rightarrow> AxiosConfig \<Rightarrow> axios_result"
  fetchExchange :: "nat \<Rightarrow> string \<Rightarrow> HttpRequestOptions \<Rightarrow> fetch_result"

text \<open>
  What a send does besides returning is recorded as a trace of events: each call of an
  HTTP client, with the arguments the client was given, and each backoff delay, in
  order. A call of \<open>axios(config)\<close> or \<open>fetch(url, init)\<close> consults the network with
  its arguments and records itself with the same arguments. (The options of a fetch
  carry the timeout of its timer along.) Logging is left out.
\<close>

datatype event = FetchCall string HttpRequestOptions | AxiosCall AxiosConfig | Delay int

definition axios :: "Network \<Rightarrow> nat \<Rightarrow> AxiosConfig \<Rightarrow> axios_result \<times> event list" where
  "axios net n config = (axiosExchange net n config, [AxiosCall config])"

definition fetch ::
  "Network \<Rightarrow> nat \<Rightarrow> string \<Rightarrow> HttpRequestOptions \<Rightarrow> fetch_result \<times> event list" where
  "fetch net n url init = (fetchExchange net n url init, [FetchCall url init])"

definition handleAxiosError :: "AxiosError \<Rightarrow> thrown" where
  "handleAxiosError e =
     (if axiosCode e = Some ''ECONNREFUSED'' \<or> axiosCode e = Some ''ENOTFOUND'' then
        McpError CONNECTION_ERROR ''Unable to connect to MCP server'' None
      else if axiosCode e = Some ''ECONNABORTED'' then
        McpError TIMEOUT_ERROR ''Request timed out'' None
      else if axiosStatus e = Some 401 \<or> axiosStatus e = Some 403 then
        McpError AUTHENTICATION_ERROR ''Authentication failed'' None
      else if axiosStatus e = Some 429 then
        McpError RATE_LIMITED ''Rate limit exceeded'' None
      else McpError SERVER_ERROR (axiosMessage e) (Some (axiosStatus e, axiosCode e)))"

definition handleError :: "thrown \<Rightarrow> thrown" where
  "handleError e =
     (case e of
        McpError ty msg details \<Rightarrow> e
      | JsError name msg \<Rightarrow>
          if includesStr msg ''fetch''
          then McpError CONNECTION_ERROR ''Network request failed'' None
          else McpError SERVER_ERROR msg None)"

definition axiosRequestConfig :: "ExtensionConfig \<Rightarrow> HttpRequestOptions \<Rightarrow> AxiosConfig" where
  "axiosRequestConfig cfg options =
     \<lparr>axMethod = httpMethod options, axUrl = endpoint (mcpServer cfg),
      axHeaders = headers options, axData = body options,
      axTimeout = requestTimeout options,
      validateStatus = (\<lambda>status. status \<ge> 200 \<and> status < 300)\<rparr>"

definition makeAxiosRequest ::
  "ExtensionConfig \<Rightarrow> Network \<Rightarrow> nat \<Rightarrow> HttpRequestOptions
     \<Rightarrow> (thrown + McpResponse) \<times> event list" where
  "makeAxiosRequest cfg net n options =
     (case axios net n (axiosRequestConfig cfg options) of
        (AxiosResolved status responseData, calls) \<Rightarrow> (Inr responseData, calls)
      | (AxiosRejected e, calls) \<Rightarrow> (Inl (handleAxiosError e), calls)
      | (AxiosThrew e, calls) \<Rightarrow> (Inl e, calls))"

text \<open>The \<open>catch\<close> block of \<open>makeFetchRequest\<close>: every \<open>AbortError\<close> becomes a
  timeout, anything else is thrown on as it is.\<close>

definition fetchCatch :: "thrown \<Rightarrow> thrown" where
  "fetchCatch e =
     (if errorName e = ''AbortError''
      then McpError TIMEOUT_ERROR ''Request timed out'' None
      else e)"

definition makeFetchRequest ::
  "ExtensionConfig \<Rightarrow> Network \<Rightarrow> nat \<Rightarrow> HttpRequestOptions
     \<Rightarrow> (thrown + McpResponse) \<times> event list" where
  "makeFetchRequest cfg net n options =
     (case fetch net n (endpoint (mcpServer cfg)) options of
        (settled, calls) \<Rightarrow>
          (case (case settled of
                   FetchResponse status statusText json \<Rightarrow>
                     if \<not> (200 \<le> status \<and> status \<le> 299) then
                       Inl (McpError SERVER_ERROR
                              (''HTTP '' @ showInt status @ '': '' @ statusText) None)
                     else json
                 | FetchAborted cause \<Rightarrow>
                     Inl (JsError ''AbortError'' ''This operation was aborted'')
                 | FetchRejected e \<Rightarrow> Inl e) of
             Inl e \<Rightarrow> (Inl (fetchCatch e), calls)
           | Inr responseData \<Rightarrow> (Inr responseData, calls)))"

definition requestOptions :: "Host \<Rightarrow> ExtensionConfig \<Rightarrow> McpRequest \<Rightarrow> HttpRequestOptions" where
  "requestOptions h cfg mcpRequest =
     \<lparr>httpMethod = POST, headers = buildHeaders h cfg,
      body = Some (jsonStringify h mcpRequest),
      requestTimeout = timeout (mcpServer cfg)\<rparr>"

definition makeHttpRequest ::
  "Host \<Rightarrow> ExtensionConfig \<Rightarrow> Network \<Rightarrow> nat \<Rightarrow> McpRequest
     \<Rightarrow> (thrown + McpResponse) \<times> event list" where
  "makeHttpRequest h cfg net n mcpRequest =
     (let options = requestOptions h cfg mcpRequest
      in if library (httpClient cfg) = Axios
         then makeAxiosRequest cfg net n options
         else makeFetchRequest cfg net n options)"

subsection \<open>Sending with retries\<close>

text \<open>
  The loop adds the calls of each attempt and its own delays to the trace.
  \<open>attempt\<close> counts the failed attempts so far, so it is also the index of the next
  exchange.

  After the loop the source throws \<open>this.handleError(lastError!)\<close>; when no attempt
  was made \<open>lastError\<close> is undefined and reading \<open>error.message\<close> raises a
  \<open>TypeError\<close>.
\<close>

function retryLoop ::
  "Host \<Rightarrow> ExtensionConfig \<Rightarrow> Network \<Rightarrow> McpRequest \<Rightarrow> nat \<Rightarrow> thrown option \<Rightarrow> event list
     \<Rightarrow> (thrown + McpResponse) \<times> event list" where
  "retryLoop h cfg net mcpRequest attempt lastError tr =
     (if int attempt \<le> retries (mcpServer cfg) then
        (case makeHttpRequest h cfg net attempt mcpRequest of
           (Inr response, calls) \<Rightarrow> (Inr response, tr @ calls)
         | (Inl e, calls) \<Rightarrow>
             (let attempt' = attempt + 1;
                  tr' = tr @ calls
              in if int attempt' \<le> retries (mcpServer cfg) then
                   retryLoop h cfg net mcpRequest attempt' (Some e)
                     (tr' @ [Delay (min (1000 * 2 ^ (attempt' - 1)) 10000)])
                 else retryLoop h cfg net mcpRequest attempt' (Some e) tr'))
      else
        (case lastError of
           None \<Rightarrow>
             (Inl (JsError ''TypeError''
                     ''Cannot read properties of undefined (reading 'message')''), tr)
         | Some e \<Rightarrow> (Inl (handleError e), tr)))"
  by pat_completeness auto
termination
  by (relation "measure (\<lambda>(h, cfg, net, mcpRequest, attempt, lastError, tr).
                  nat (retries (mcpServer cfg) + 1 - int attempt))") auto

declare retryLoop.simps [simp del]

definition sendMcpRequest ::
  "Host \<Rightarrow> ExtensionConfig \<Rightarrow> Network \<Rightarrow> McpRequest
     \<Rightarrow> (thrown + McpResponse) \<times> event list" where
  "sendMcpRequest h cfg net mcpRequest =
     (if \<not> enabled (features cfg) then
        (Inr \<lparr>success = True,
              data = Some \<lparr>enhancedPrompt = Some (prompt mcpRequest),
                           additionalContext = None, suggestions = None,
                           responseMetadata = None\<rparr>,
              error = None\<rparr>, [])
      else retryLoop h cfg net mcpRequest 0 None [])"

section \<open>Chat participant (chatParticipant.ts)\<close>

text \<open>
  The response stream receives segments: \<open>stream.markdown\<close> and \<open>stream.progress\<close>.
  A turn's inputs besides the prompt: the length of the chat history, the string
  \<open>Math.random().toString(36).substr(2, 9)\<close>, the readings of \<open>Date.now()\<close> at the
  places the handler takes them, and \<open>token.isCancellationRequested\<close> at its two checks.
\<close>

datatype segment = Markdown string | Progress string

record Turn =
  historyLength :: nat
  randomSuffix :: string
  nowSessionId :: int
  nowStartTime :: int
  nowLastActivity :: int
  nowTimestamp :: int
  nowCompleted :: int
  cancelledBeforeSend :: bool
  cancelledAfterSend :: bool

definition nl :: string where
  "nl = [CHR 0x0A]"

text \<open>The two marks are the bytes the source file holds in its string literals.\<close>

definition crossMark :: string where
  "crossMark = [CHR 0xE2, CHR 0x80, CHR 0x9A, CHR 0xC3, CHR 0xB9, CHR 0xC3, CHR 0xA5]"

definition bulletMark :: string where
  "bulletMark = [CHR 0xE2, CHR 0x80, CHR 0x9A, CHR 0xC3, CHR 0x84, CHR 0xC2, CHR 0xA2]"

text \<open>\<open>process.env.USERNAME || process.env.USER || 'unknown'\<close>\<close>

definition getCurrentUserId :: "Host \<Rightarrow> string" where
  "getCurrentUserId h =
     ''user-'' @
       (let user = (case envUSER h of
                      None \<Rightarrow> ''unknown''
                    | Some u \<Rightarrow> if u = [] then ''unknown'' else u)
        in case envUSERNAME h of
             None \<Rightarrow> user
           | Some u \<Rightarrow> if u = [] then user else u)"

definition getOrCreateSession ::
  "Host \<Rightarrow> Turn \<Rightarrow> (string \<rightharpoonup> ChatSession) \<Rightarrow> ChatSession \<times> (string \<rightharpoonup> ChatSession)" where
  "getOrCreateSession h t sessions =
     (let sessionId = (if historyLength t > 0
                       then ''session-'' @ showInt (nowSessionId t)
                       else ''session-'' @ randomSuffix t)
      in case sessions sessionId of
           Some session \<Rightarrow> (session, sessions)
         | None \<Rightarrow>
             (let session = \<lparr>ident = sessionId, sessionUserId = getCurrentUserId h,
                             startTime = nowStartTime t, lastActivity = nowLastActivity t,
                             messageCount = 0\<rparr>
              in (session, sessions(sessionId \<mapsto> session))))"

definition buildMcpRequest ::
  "Host \<Rightarrow> ExtensionConfig \<Rightarrow> Turn \<Rightarrow> string \<Rightarrow> ChatSession \<Rightarrow> McpRequest" where
  "buildMcpRequest h cfg t userPrompt session =
     (let c0 = \<lparr>workspaceRoot = None, activeFile = None, selection = None,
                 openFiles = None\<rparr>;
          c1 = (case workspaceFolder h of
                  Some root \<Rightarrow>
                    if includeWorkspaceContext (features cfg) then
                      c0\<lparr>workspaceRoot := Some root,
                         openFiles := Some (map snd (filter (\<lambda>doc. \<not> fst doc)
                                                       (textDocuments h)))\<rparr>
                    else c0
                | None \<Rightarrow> c0);
          c2 = (case activeTextEditor h of
                  Some ed \<Rightarrow>
                    if includeActiveFile (features cfg) then
                      (let c = c1\<lparr>activeFile :=
                                    Some \<lparr>path = documentPath ed,
                                          language = documentLanguage ed,
                                          content = Some (documentText ed)\<rparr>\<rparr>
                       in if \<not> selectionIsEmpty ed
                          then c\<lparr>selection := Some (editorSelection ed)\<rparr>
                          else c)
                    else c1
                | None \<Rightarrow> c1)
      in \<lparr>prompt = userPrompt, sessionId = ident session,
          userId = sessionUserId session, timestamp = nowTimestamp t,
          requestContext = c2,
          metadata = \<lparr>extensionVersion = getExtensionVersion h,
                       vscodeVersion = hostVersion h,
                       copilotVersion = copilotPackageVersion h\<rparr>\<rparr>)"

text \<open>\<open>handleMcpResponse\<close> throws on a response with \<open>success\<close> false, before it
  writes anything; otherwise it returns the segments it wrote.\<close>

definition handleMcpResponse ::
  "ExtensionConfig \<Rightarrow> McpResponse \<Rightarrow> string \<Rightarrow> thrown + segment list" where
  "handleMcpResponse cfg mcpResponse originalPrompt =
     (if \<not> success mcpResponse then
        Inl (McpError SERVER_ERROR
               (case error mcpResponse of
                  None \<Rightarrow> ''MCP server returned unsuccessful response''
                | Some e \<Rightarrow>
                    if message e = [] then ''MCP server returned unsuccessful response''
                    else message e)
               None)
      else
        (case data mcpResponse of
           None \<Rightarrow> Inr [Markdown (''**Enhanced Prompt:** '' @ originalPrompt)]
         | Some d \<Rightarrow>
             Inr ((case enhancedPrompt d of
                     None \<Rightarrow> []
                   | Some ep \<Rightarrow>
                       if ep \<noteq> [] \<and> ep \<noteq> originalPrompt
                       then [Markdown (''**Enhanced Prompt:** '' @ ep @ nl @ nl)]
                       else [])
                  @ (case additionalContext d of
                       None \<Rightarrow> []
                     | Some ac \<Rightarrow>
                         if ac \<noteq> []
                         then [Markdown (''**Additional Context:**'' @ nl @ ac @ nl @ nl)]
                         else [])
                  @ (case suggestions d of
                       None \<Rightarrow> []
                     | Some ss \<Rightarrow>
                         if length ss > 0
                         then [Markdown (''**Suggestions:**'' @ nl)]
                              @ map (\<lambda>suggestion.
                                       Markdown (bulletMark @ '' '' @ suggestion @ nl)) ss
                              @ [Markdown nl]
                         else [])
                  @ (case responseMetadata d of
                       None \<Rightarrow> []
                     | Some m \<Rightarrow>
                         if level (logging cfg) = Debug
                         then [Markdown (''**Debug Info:**'' @ nl @ ''```json'' @ nl @ m
                                         @ nl @ ''```'' @ nl)]
                         else []))))"

text \<open>\<open>handleMcpError\<close> receives whatever was thrown, cast to \<open>McpError\<close>; the
  \<open>switch\<close> on \<open>error.type\<close> has four cases and a default.\<close>

definition handleMcpError :: "thrown \<Rightarrow> string \<Rightarrow> segment list" where
  "handleMcpError e originalPrompt =
     [Markdown
        (crossMark @ '' **MCP Enhancement Failed**'' @ nl @ nl
         @ (case errorType e of
              Some CONNECTION_ERROR \<Rightarrow>
                ''Unable to connect to MCP server. Please check your configuration.''
            | Some AUTHENTICATION_ERROR \<Rightarrow>
                ''Authentication failed. Please check your API credentials.''
            | Some TIMEOUT_ERROR \<Rightarrow>
                ''Request timed out. The MCP server may be overloaded.''
            | Some RATE_LIMITED \<Rightarrow>
                ''Rate limit exceeded. Please wait before making another request.''
            | _ \<Rightarrow> ''Error: '' @ errorMessage e)
         @ nl @ nl @ ''**Fallback:** Using original prompt without enhancement.'' @ nl @ nl
         @ ''**Original Prompt:** '' @ originalPrompt)]"

text \<open>
  One turn. The result is the session table after the turn, the segments written to the
  stream and the network trace. The session object returned by \<open>getOrCreateSession\<close>
  is the one stored in the table, so the update after a displayed response changes the
  table entry. Nothing in the inner \<open>try\<close> block throws past its \<open>catch\<close>, so the
  outer \<open>catch\<close> has no branch here.
\<close>

record TurnResult =
  sessionsAfter :: "string \<rightharpoonup> ChatSession"
  streamOutput :: "segment list"
  network :: "event list"

definition handleChatRequest ::
  "Host \<Rightarrow> ExtensionConfig \<Rightarrow> Network \<Rightarrow> Turn \<Rightarrow> string \<Rightarrow> (string \<rightharpoonup> ChatSession)
     \<Rightarrow> TurnResult" where
  "handleChatRequest h cfg net t userPrompt sessions =
     (if \<not> enabled (features cfg) then
        \<lparr>sessionsAfter = sessions,
         streamOutput = [Markdown (''**Original prompt:** '' @ userPrompt @ nl @ nl
                             @ ''*Note: MCP integration is currently disabled.*'')],
         network = []\<rparr>
      else
        (let (session, sessions1) = getOrCreateSession h t sessions;
             out1 = [Progress ''Enhancing prompt with MCP server...''];
             mcpRequest = buildMcpRequest h cfg t userPrompt session
         in if cancelledBeforeSend t then
              \<lparr>sessionsAfter = sessions1, streamOutput = out1, network = []\<rparr>
            else
              (case sendMcpRequest h cfg net mcpRequest of
                 (Inr mcpResponse, tr) \<Rightarrow>
                   if cancelledAfterSend t then
                     \<lparr>sessionsAfter = sessions1, streamOutput = out1, network = tr\<rparr>
                   else
                     (case handleMcpResponse cfg mcpResponse userPrompt of
                        Inr segments \<Rightarrow>
                          \<lparr>sessionsAfter =
                             sessions1(ident session \<mapsto>
                               session\<lparr>lastActivity := nowCompleted t,
                                       messageCount := messageCount session + 1\<rparr>),
                           streamOutput = out1 @ segments, network = tr\<rparr>
                      | Inl e \<Rightarrow>
                          \<lparr>sessionsAfter = sessions1,
                           streamOutput = out1 @ handleMcpError e userPrompt, network = tr\<rparr>)
               | (Inl e, tr) \<Rightarrow>
                   \<lparr>sessionsAfter = sessions1,
                    streamOutput = out1 @ handleMcpError e userPrompt, network = tr\<rparr>)))"

section \<open>The call a request is sent with\<close>

text \<open>For stating properties: the event of the one client call that
  \<open>makeHttpRequest\<close> is to make for a request under a configuration, with the
  arguments built from that request. That the code makes this call, and no other, is
  proved below (\<open>makeHttpRequest_call\<close>).\<close>

definition clientCall :: "Host \<Rightarrow> ExtensionConfig \<Rightarrow> McpRequest \<Rightarrow> event" where
  "clientCall h cfg mcpRequest =
     (if library (httpClient cfg) = Axios
      then AxiosCall (axiosRequestConfig cfg (requestOptions h cfg mcpRequest))
      else FetchCall (endpoint (mcpServer cfg)) (requestOptions h cfg mcpRequest))"

section \<open>Example inputs\<close>

text \<open>The configuration that \<open>ConfigurationManager.getConfig\<close> returns when no
  setting is stored (the defaults of configManager.ts), and variants of it.\<close>

definition defaultConfig :: ExtensionConfig where
  "defaultConfig =
     \<lparr>mcpServer = \<lparr>endpoint = ''http://localhost:3000/mcp'', timeout = 30000,
                   retries = 2\<rparr>,
      authentication = \<lparr>authType = AuthNone, token = [],
                        headerName = ''Authorization''\<rparr>,
      httpClient = \<lparr>library = Fetch, userAgent = ''VSCode-Copilot-MCP-Bridge/1.0.0''\<rparr>,
      features = \<lparr>enabled = True, includeWorkspaceContext = True,
                  includeActiveFile = True\<rparr>,
      logging = \<lparr>level = Info, enableTelemetry = False\<rparr>\<rparr>"

definition axiosConfig :: ExtensionConfig where
  "axiosConfig =
     defaultConfig\<lparr>httpClient :=
       \<lparr>library = Axios, userAgent = ''VSCode-Copilot-MCP-Bridge/1.0.0''\<rparr>\<rparr>"

definition disabledConfig :: ExtensionConfig where
  "disabledConfig =
     defaultConfig\<lparr>features :=
       \<lparr>enabled = False, includeWorkspaceContext = True, includeActiveFile = True\<rparr>\<rparr>"

definition oneRetryConfig :: ExtensionConfig where
  "oneRetryConfig =
     defaultConfig\<lparr>mcpServer :=
       \<lparr>endpoint = ''http://localhost:3000/mcp'', timeout = 30000, retries = 1\<rparr>\<rparr>"

text \<open>A retry count below zero, as the settings file can hold it.\<close>

definition negativeRetryConfig :: ExtensionConfig where
  "negativeRetryConfig =
     defaultConfig\<lparr>mcpServer :=
       \<lparr>endpoint = ''http://localhost:3000/mcp'', timeout = 30000, retries = - 1\<rparr>\<rparr>"

definition noRetryConfig :: ExtensionConfig where
  "noRetryConfig =
     defaultConfig\<lparr>mcpServer :=
       \<lparr>endpoint = ''http://localhost:3000/mcp'', timeout = 30000, retries = 0\<rparr>\<rparr>"

text \<open>The example host serializes a request by a stand-in for \<open>JSON.stringify\<close> that
  renders the prompt, the session id and the timestamp.\<close>

definition exampleStringify :: "McpRequest \<Rightarrow> string" where
  "exampleStringify r =
     ''{prompt:'' @ prompt r @ '',sessionId:'' @ sessionId r
       @ '',timestamp:'' @ showInt (timestamp r) @ ''}''"

definition exampleHost :: Host where
  "exampleHost =
     \<lparr>hostVersion = ''1.85.0'', bridgePackageVersion = Some ''1.0.0'',
      copilotPackageVersion = None, envUSERNAME = None, envUSER = Some ''dev'',
      workspaceFolder = None, textDocuments = [], activeTextEditor = None,
      jsonStringify = exampleStringify\<rparr>"

definition exampleRequest :: McpRequest where
  "exampleRequest =
     \<lparr>prompt = ''hi'', sessionId = ''session-1'', userId = ''user-dev'',
      timestamp = 1700000000000,
      requestContext = \<lparr>workspaceRoot = None, activeFile = None, selection = None,
                         openFiles = None\<rparr>,
      metadata = \<lparr>extensionVersion = ''1.0.0'', vscodeVersion = ''1.85.0'',
                   copilotVersion = None\<rparr>\<rparr>"

definition exampleTurn :: Turn where
  "exampleTurn =
     \<lparr>historyLength = 0, randomSuffix = ''k3j9x0q2a'',
      nowSessionId = 1700000000000, nowStartTime = 1700000000000,
      nowLastActivity = 1700000000000, nowTimestamp = 1700000000001,
      nowCompleted = 1700000004000,
      cancelledBeforeSend = False, cancelledAfterSend = False\<rparr>"

text \<open>The request that the example turn builds for the prompt \<open>hi\<close> in a fresh
  conversation.\<close>

definition turnRequest :: McpRequest where
  "turnRequest =
     buildMcpRequest exampleHost defaultConfig exampleTurn ''hi''
       (fst (getOrCreateSession exampleHost exampleTurn Map.empty))"

definition cancelledTurn :: Turn where
  "cancelledTurn = exampleTurn\<lparr>cancelledAfterSend := True\<rparr>"

text \<open>No server listens: fetch rejects with \<open>TypeError: fetch failed\<close>, axios with
  \<open>ECONNREFUSED\<close>, on every attempt.\<close>

definition unreachableNetwork :: Network where
  "unreachableNetwork =
     \<lparr>axiosExchange = (\<lambda>n c. AxiosRejected
                          \<lparr>axiosCode = Some ''ECONNREFUSED'', axiosStatus = None,
                           axiosMessage = ''connect ECONNREFUSED 127.0.0.1:3000''\<rparr>),
      fetchExchange = (\<lambda>n url options. FetchRejected (JsError ''TypeError'' ''fetch failed''))\<rparr>"

text \<open>The endpoint answers every request with status 429 and a JSON body.\<close>

definition rateLimitBody :: McpResponse where
  "rateLimitBody =
     \<lparr>success = False, data = None,
      error = Some \<lparr>code = ''RATE_LIMIT'', message = ''slow down''\<rparr>\<rparr>"

definition rateLimitedNetwork :: Network where
  "rateLimitedNetwork =
     \<lparr>axiosExchange = (\<lambda>n c. AxiosRejected
                          \<lparr>axiosCode = Some ''ERR_BAD_REQUEST'', axiosStatus = Some 429,
                           axiosMessage = ''Request failed with status code 429''\<rparr>),
      fetchExchange = (\<lambda>n url options.
                         FetchResponse 429 ''Too Many Requests'' (Inr rateLimitBody))\<rparr>"

text \<open>Every request is aborted by a call of \<open>cancelRequests\<close> while it is in flight.\<close>

definition cancelledNetwork :: Network where
  "cancelledNetwork =
     \<lparr>axiosExchange = (\<lambda>n c. AxiosRejected
                          \<lparr>axiosCode = Some ''ERR_CANCELED'', axiosStatus = None,
                           axiosMessage = ''canceled''\<rparr>),
      fetchExchange = (\<lambda>n url options. FetchAborted CancelRequests)\<rparr>"

text \<open>The endpoint answers with status 200 and the body
  \<open>{success: false, error: {code: "X", message: "bad"}}\<close>.\<close>

definition refusal :: McpResponse where
  "refusal =
     \<lparr>success = False, data = None, error = Some \<lparr>code = ''X'', message = ''bad''\<rparr>\<rparr>"

definition refusingNetwork :: Network where
  "refusingNetwork =
     \<lparr>axiosExchange = (\<lambda>n c. AxiosResolved 200 refusal),
      fetchExchange = (\<lambda>n url options. FetchResponse 200 ''OK'' (Inr refusal))\<rparr>"

text \<open>Bearer authentication selected, but no token stored.\<close>

definition bearerNoToken :: ExtensionConfig where
  "bearerNoToken =
     defaultConfig\<lparr>authentication :=
       \<lparr>authType = Bearer, token = [], headerName = ''Authorization''\<rparr>\<rparr>"

text \<open>Bearer authentication with the token \<open>abc\<close>, under the header name
  \<open>__proto__\<close>.\<close>

definition protoHeaderConfig :: ExtensionConfig where
  "protoHeaderConfig =
     defaultConfig\<lparr>authentication :=
       \<lparr>authType = Bearer, token = ''abc'', headerName = ''__proto__''\<rparr>\<rparr>"

section \<open>Properties of the transport\<close>

lemma handleError_is_McpError:
  "\<exists>kind msg details. handleError e = McpError kind msg details"
  by (cases e) (simp_all add: handleError_def)

text \<open>Every attempt makes exactly one client call, with the arguments built from the
  request it was given.\<close>

lemma makeHttpRequest_call:
  "snd (makeHttpRequest h cfg net n req) = [clientCall h cfg req]"
  by (simp add: makeHttpRequest_def makeAxiosRequest_def makeFetchRequest_def axios_def
        fetch_def clientCall_def Let_def
        split: axios_result.splits fetch_result.splits sum.splits)

text \<open>One step of the loop, case by case.\<close>

lemma retryLoop_stop:
  assumes "\<not> int a \<le> retries (mcpServer cfg)"
  shows "retryLoop h cfg net req a lastError tr =
           (case lastError of
              None \<Rightarrow>
                (Inl (JsError ''TypeError''
                        ''Cannot read properties of undefined (reading 'message')''), tr)
            | Some e \<Rightarrow> (Inl (handleError e), tr))"
  using assms by (simp add: retryLoop.simps [of h cfg net req a])

lemma retryLoop_success:
  assumes "int a \<le> retries (mcpServer cfg)"
    and "makeHttpRequest h cfg net a req = (Inr response, calls)"
  shows "retryLoop h cfg net req a lastError tr = (Inr response, tr @ calls)"
  using assms by (simp add: retryLoop.simps [of h cfg net req a])

lemma retryLoop_retry:
  assumes "int a \<le> retries (mcpServer cfg)"
    and "makeHttpRequest h cfg net a req = (Inl e, calls)"
    and "int (a + 1) \<le> retries (mcpServer cfg)"
  shows "retryLoop h cfg net req a lastError tr
           = retryLoop h cfg net req (a + 1) (Some e)
               ((tr @ calls) @ [Delay (min (1000 * 2 ^ (a + 1 - 1)) 10000)])"
  using assms by (simp add: retryLoop.simps [of h cfg net req a] Let_def)

lemma retryLoop_exhausted:
  assumes "int a \<le> retries (mcpServer cfg)"
    and "makeHttpRequest h cfg net a req = (Inl e, calls)"
    and "\<not> int (a + 1) \<le> retries (mcpServer cfg)"
  shows "retryLoop h cfg net req a lastError tr = (Inl (handleError e), tr @ calls)"
proof -
  have "retryLoop h cfg net req a lastError tr
          = retryLoop h cfg net req (a + 1) (Some e) (tr @ calls)"
    using assms by (simp add: retryLoop.simps [of h cfg net req a] Let_def)
  also have "\<dots> = (Inl (handleError e), tr @ calls)"
    using assms(3) by (simp add: retryLoop_stop)
  finally show ?thesis .
qed

text \<open>Once an attempt has been made, or will be made, whatever the loop throws is an
  \<open>McpError\<close>.\<close>

lemma retryLoop_classified:
  "int a \<le> retries (mcpServer cfg) \<or> lastError \<noteq> None \<Longrightarrow>
   fst (retryLoop h cfg net req a lastError tr) = Inl e \<Longrightarrow>
   \<exists>kind msg details. e = McpError kind msg details"
proof (induction "nat (retries (mcpServer cfg) + 1 - int a)" arbitrary: a lastError tr)
  case 0
  then have stop: "\<not> int a \<le> retries (mcpServer cfg)" by linarith
  with "0.prems"(1) obtain err where err: "lastError = Some err" by auto
  from "0.prems"(2) have "e = handleError err"
    by (simp add: retryLoop_stop [OF stop] err)
  with handleError_is_McpError [of err] show ?case by simp
next
  case (Suc d)
  then have go: "int a \<le> retries (mcpServer cfg)" by linarith
  have d: "d = nat (retries (mcpServer cfg) + 1 - int (a + 1))"
    using Suc.hyps(2) by linarith
  obtain outcome calls where mk: "makeHttpRequest h cfg net a req = (outcome, calls)"
    by (cases "makeHttpRequest h cfg net a req")
  show ?case
  proof (cases outcome)
    case (Inr response)
    from Suc.prems(2) show ?thesis
      by (simp add: retryLoop_success [OF go mk [unfolded Inr]])
  next
    case (Inl err)
    note failed = mk [unfolded Inl]
    show ?thesis
    proof (cases "int (a + 1) \<le> retries (mcpServer cfg)")
      case True
      from Suc.prems(2)
      have "fst (retryLoop h cfg net req (a + 1) (Some err)
                   ((tr @ calls) @ [Delay (min (1000 * 2 ^ (a + 1 - 1)) 10000)])) = Inl e"
        by (simp only: retryLoop_retry [OF go failed True])
      from Suc.hyps(1) [OF d disjI1 [OF True] this] show ?thesis .
    next
      case False
      from Suc.prems(2) have "e = handleError err"
        by (simp add: retryLoop_exhausted [OF go failed False])
      with handleError_is_McpError [of err] show ?thesis by simp
    qed
  qed
qed

text \<open>So with a retry count that is not negative every failure of a send is
  classified.\<close>

lemma sendMcpRequest_classified_when_attempted:
  assumes "fst (sendMcpRequest h cfg net mcpRequest) = Inl e"
    and "0 \<le> retries (mcpServer cfg)"
  shows "\<exists>kind msg details. e = McpError kind msg details"
proof -
  from assms(1) have "fst (retryLoop h cfg net mcpRequest 0 None []) = Inl e"
    by (simp add: sendMcpRequest_def split: if_splits)
  with assms(2) show ?thesis
    using retryLoop_classified [of 0 cfg None h net mcpRequest "[]" e] by simp
qed

lemma unreachable_attempt:
  "library (httpClient cfg) = Fetch \<Longrightarrow>
   makeHttpRequest h cfg unreachableNetwork n req
     = (Inl (JsError ''TypeError'' ''fetch failed''), [clientCall h cfg req])"
  by (simp add: makeHttpRequest_def unreachableNetwork_def makeFetchRequest_def
        fetch_def fetchCatch_def clientCall_def)

lemma defaultConfig_fields:
  "retries (mcpServer defaultConfig) = 2" "enabled (features defaultConfig)"
  "library (httpClient defaultConfig) = Fetch"
  by (simp_all add: defaultConfig_def)

text \<open>With a negative retry count the loop body never runs: no client is called, and
  the throw after the loop fails on the undefined \<open>lastError\<close>.\<close>

lemma sendMcpRequest_negative_retries:
  assumes "enabled (features cfg)" and "retries (mcpServer cfg) < 0"
  shows "sendMcpRequest h cfg net mcpRequest
           = (Inl (JsError ''TypeError''
                     ''Cannot read properties of undefined (reading 'message')''), [])"
  using assms by (simp add: sendMcpRequest_def retryLoop_stop)

text \<open>
  C1. The claim is that every failure of \<open>sendMcpRequest\<close> is classified into an error
  type before it leaves. With the retry count \<open>-1\<close>, which the settings can hold and
  which reaches the service, the loop makes no attempt, \<open>lastError\<close> stays undefined,
  and the send throws a \<open>TypeError\<close>, which is not an \<open>McpError\<close> and has no error
  type.
\<close>

theorem negative_retries_throw_raw_error:
  "enabled (features negativeRetryConfig)
   \<and> retries (mcpServer negativeRetryConfig) = - 1
   \<and> sendMcpRequest exampleHost negativeRetryConfig unreachableNetwork exampleRequest
       = (Inl (JsError ''TypeError''
                 ''Cannot read properties of undefined (reading 'message')''), [])
   \<and> errorType (JsError ''TypeError''
                   ''Cannot read properties of undefined (reading 'message')'') = None"
proof -
  have on: "enabled (features negativeRetryConfig)"
    by (simp add: negativeRetryConfig_def defaultConfig_def)
  have r: "retries (mcpServer negativeRetryConfig) = - 1"
    by (simp add: negativeRetryConfig_def)
  then have neg: "retries (mcpServer negativeRetryConfig) < 0" by simp
  from on r sendMcpRequest_negative_retries [OF on neg] show ?thesis by simp
qed

section \<open>Properties of the request headers\<close>

lemma buildHeaders_without_auth:
  assumes "authType (authentication cfg) = AuthNone \<or> token (authentication cfg) = []"
  shows "buildHeaders h cfg =
           [''Content-Type'' \<mapsto> ''application/json'',
            ''User-Agent'' \<mapsto> userAgent (httpClient cfg),
            ''X-VS-Code-Version'' \<mapsto> hostVersion h,
            ''X-Extension-Version'' \<mapsto> getExtensionVersion h]"
  using assms by (auto simp add: buildHeaders_def Let_def)

lemma fixed_headers_dom:
  "dom [''Content-Type'' \<mapsto> a, ''User-Agent'' \<mapsto> b, ''X-VS-Code-Version'' \<mapsto> c,
        ''X-Extension-Version'' \<mapsto> d]
     = {''Content-Type'', ''User-Agent'', ''X-VS-Code-Version'', ''X-Extension-Version''}"
  by (simp add: insert_commute)

lemma base64_example: "base64 ''u:p'' = ''dTpw''"
  by (simp add: sextet_def base64Alphabet_def)

text \<open>Under every header name but \<open>__proto__\<close> the authentication header follows
  the table: \<open>Bearer abc\<close>, \<open>k1\<close>, \<open>Basic dTpw\<close>; with type none the header object has
  the four fixed keys and no other, under every header name.\<close>

lemma auth_header_table_ordinary_names:
  assumes "name \<noteq> ''__proto__''"
  shows "buildHeaders h (cfg\<lparr>authentication :=
             \<lparr>authType = Bearer, token = ''abc'', headerName = name\<rparr>\<rparr>) name
           = Some ''Bearer abc''"
    and "buildHeaders h (cfg\<lparr>authentication :=
             \<lparr>authType = ApiKey, token = ''k1'', headerName = name\<rparr>\<rparr>) name
           = Some ''k1''"
    and "buildHeaders h (cfg\<lparr>authentication :=
             \<lparr>authType = Basic, token = ''u:p'', headerName = name\<rparr>\<rparr>) name
           = Some ''Basic dTpw''"
  using assms
  by (simp_all add: buildHeaders_def assignProperty_def sextet_def base64Alphabet_def)

lemma auth_header_none:
  "dom (buildHeaders h (cfg\<lparr>authentication :=
          \<lparr>authType = AuthNone, token = tok, headerName = name\<rparr>\<rparr>))
     = {''Content-Type'', ''User-Agent'', ''X-VS-Code-Version'', ''X-Extension-Version''}"
  by (simp add: buildHeaders_without_auth insert_commute)

text \<open>
  C8. The claim is the table of authentication headers, for every built request. With
  type bearer, token \<open>abc\<close> and the header name \<open>__proto__\<close>, the assignment
  \<open>headers[headerName] = `Bearer ${token}`\<close> stores nothing: the header object is the
  one built without authentication, with the four fixed keys only, and no header of
  the value \<open>Bearer abc\<close> is sent.
\<close>

theorem proto_header_name_drops_auth_header:
  "authType (authentication protoHeaderConfig) = Bearer
   \<and> token (authentication protoHeaderConfig) = ''abc''
   \<and> headerName (authentication protoHeaderConfig) = ''__proto__''
   \<and> buildHeaders exampleHost protoHeaderConfig ''__proto__'' = None
   \<and> dom (buildHeaders exampleHost protoHeaderConfig)
       = {''Content-Type'', ''User-Agent'', ''X-VS-Code-Version'', ''X-Extension-Version''}
   \<and> buildHeaders exampleHost protoHeaderConfig = buildHeaders exampleHost defaultConfig"
proof -
  have built: "buildHeaders exampleHost protoHeaderConfig
                 = [''Content-Type'' \<mapsto> ''application/json'',
                    ''User-Agent'' \<mapsto> ''VSCode-Copilot-MCP-Bridge/1.0.0'',
                    ''X-VS-Code-Version'' \<mapsto> hostVersion exampleHost,
                    ''X-Extension-Version'' \<mapsto> getExtensionVersion exampleHost]"
    by (simp add: buildHeaders_def assignProperty_def protoHeaderConfig_def
          defaultConfig_def)
  have plain: "buildHeaders exampleHost defaultConfig
                 = [''Content-Type'' \<mapsto> ''application/json'',
                    ''User-Agent'' \<mapsto> ''VSCode-Copilot-MCP-Bridge/1.0.0'',
                    ''X-VS-Code-Version'' \<mapsto> hostVersion exampleHost,
                    ''X-Extension-Version'' \<mapsto> getExtensionVersion exampleHost]"
    by (simp add: buildHeaders_def defaultConfig_def)
  have absent: "buildHeaders exampleHost protoHeaderConfig ''__proto__'' = None"
    unfolding built by simp
  have keys: "dom (buildHeaders exampleHost protoHeaderConfig)
       = {''Content-Type'', ''User-Agent'', ''X-VS-Code-Version'', ''X-Extension-Version''}"
    unfolding built by (rule fixed_headers_dom)
  have same: "buildHeaders exampleHost protoHeaderConfig
                = buildHeaders exampleHost defaultConfig"
    unfolding built plain by (rule refl)
  from absent keys same show ?thesis
    by (simp add: protoHeaderConfig_def)
qed

text \<open>
  C10. With authentication type bearer, api-key or basic and an empty token,
  \<open>buildHeaders\<close> adds no authentication header: the header object is exactly the four
  fixed headers with their values, so the configured header name is absent from it
  (unless it is the name of one of the four).
\<close>

theorem empty_token_adds_no_header:
  assumes "authType (authentication cfg) \<in> {Bearer, ApiKey, Basic}"
    and "token (authentication cfg) = []"
  shows "buildHeaders h cfg =
           [''Content-Type'' \<mapsto> ''application/json'',
            ''User-Agent'' \<mapsto> userAgent (httpClient cfg),
            ''X-VS-Code-Version'' \<mapsto> hostVersion h,
            ''X-Extension-Version'' \<mapsto> getExtensionVersion h]
         \<and> dom (buildHeaders h cfg)
             = {''Content-Type'', ''User-Agent'', ''X-VS-Code-Version'',
                ''X-Extension-Version''}
         \<and> (headerName (authentication cfg)
               \<notin> {''Content-Type'', ''User-Agent'', ''X-VS-Code-Version'',
                  ''X-Extension-Version''}
             \<longrightarrow> buildHeaders h cfg (headerName (authentication cfg)) = None)"
proof -
  have eq: "buildHeaders h cfg =
           [''Content-Type'' \<mapsto> ''application/json'',
            ''User-Agent'' \<mapsto> userAgent (httpClient cfg),
            ''X-VS-Code-Version'' \<mapsto> hostVersion h,
            ''X-Extension-Version'' \<mapsto> getExtensionVersion h]"
    by (rule buildHeaders_without_auth) (simp add: assms(2))
  have d: "dom (buildHeaders h cfg)
             = {''Content-Type'', ''User-Agent'', ''X-VS-Code-Version'',
                ''X-Extension-Version''}"
    unfolding eq by (rule fixed_headers_dom)
  have "headerName (authentication cfg) \<notin> dom (buildHeaders h cfg)
          \<Longrightarrow> buildHeaders h cfg (headerName (authentication cfg)) = None"
    by (simp add: domIff)
  with eq d show ?thesis by simp
qed

theorem empty_token_adds_no_header_witness:
  "authType (authentication bearerNoToken) \<in> {Bearer, ApiKey, Basic}
   \<and> token (authentication bearerNoToken) = []
   \<and> headerName (authentication bearerNoToken)
        \<notin> {''Content-Type'', ''User-Agent'', ''X-VS-Code-Version'', ''X-Extension-Version''}
   \<and> buildHeaders exampleHost bearerNoToken ''Authorization'' = None
   \<and> buildHeaders exampleHost bearerNoToken ''Content-Type'' = Some ''application/json''
   \<and> buildHeaders exampleHost bearerNoToken ''User-Agent''
        = Some ''VSCode-Copilot-MCP-Bridge/1.0.0''
   \<and> buildHeaders exampleHost bearerNoToken ''X-VS-Code-Version'' = Some ''1.85.0''
   \<and> buildHeaders exampleHost bearerNoToken ''X-Extension-Version'' = Some ''1.0.0''"
proof -
  have a: "authType (authentication bearerNoToken) \<in> {Bearer, ApiKey, Basic}"
    by (simp add: bearerNoToken_def)
  have b: "token (authentication bearerNoToken) = []"
    by (simp add: bearerNoToken_def)
  have c: "headerName (authentication bearerNoToken) = ''Authorization''"
    by (simp add: bearerNoToken_def)
  have v: "userAgent (httpClient bearerNoToken) = ''VSCode-Copilot-MCP-Bridge/1.0.0''"
    "hostVersion exampleHost = ''1.85.0''" "getExtensionVersion exampleHost = ''1.0.0''"
    by (simp_all add: bearerNoToken_def defaultConfig_def exampleHost_def
          getExtensionVersion_def)
  from empty_token_adds_no_header [OF a b, of exampleHost] a b c v
  show ?thesis by simp
qed

section \<open>Properties of the retry loop\<close>

text \<open>When every attempt fails, the loop calls the client, waits, calls again, and so
  on, and ends with the classified error of the last attempt.\<close>

lemma retryLoop_all_fail:
  assumes fail: "\<And>n. makeHttpRequest h cfg net n req = (Inl (errs n), [call])"
    and le: "int a \<le> retries (mcpServer cfg)"
  shows "retryLoop h cfg net req a lastError tr =
           (Inl (handleError (errs (nat (retries (mcpServer cfg))))),
            tr @ call #
              concat (map (\<lambda>k. [Delay (min (1000 * 2 ^ (k - 2)) 10000), call])
                          [a + 2..<nat (retries (mcpServer cfg)) + 2]))"
proof -
  define N where "N = nat (retries (mcpServer cfg)) + 2"
  define f where "f = (\<lambda>k::nat. [Delay (min (1000 * 2 ^ (k - 2)) 10000), call])"
  have main: "int a \<le> retries (mcpServer cfg) \<Longrightarrow>
      retryLoop h cfg net req a lastError tr =
        (Inl (handleError (errs (nat (retries (mcpServer cfg))))),
         tr @ call # concat (map f [a + 2..<N]))" for a lastError tr
  proof (induction "nat (retries (mcpServer cfg)) - a" arbitrary: a lastError tr)
    case 0
    then have a: "a = nat (retries (mcpServer cfg))" by linarith
    have last: "\<not> int (a + 1) \<le> retries (mcpServer cfg)" using a by linarith
    have "retryLoop h cfg net req a lastError tr
            = (Inl (handleError (errs a)), tr @ [call])"
      by (rule retryLoop_exhausted [OF "0.prems" fail last])
    then show ?case using a by (simp add: N_def)
  next
    case (Suc d)
    then have le1: "int (a + 1) \<le> retries (mcpServer cfg)" by linarith
    have d: "d = nat (retries (mcpServer cfg)) - (a + 1)" using Suc.hyps(2) by linarith
    have lt: "a + 2 < N" using le1 unfolding N_def by linarith
    have upt: "[a + 2..<N] = (a + 2) # [a + 1 + 2..<N]"
      using upt_conv_Cons [OF lt] by simp
    have "retryLoop h cfg net req a lastError tr =
            retryLoop h cfg net req (a + 1) (Some (errs a))
              ((tr @ [call]) @ [Delay (min (1000 * 2 ^ (a + 1 - 1)) 10000)])"
      by (rule retryLoop_retry [OF Suc.prems fail le1])
    also note Suc.hyps(1) [OF d le1]
    finally show ?case unfolding upt by (simp add: f_def)
  qed
  from main [OF le] show ?thesis by (simp add: N_def f_def)
qed

lemma count_calls:
  assumes "\<And>ms. Delay ms \<noteq> call"
  shows "count_list (concat (map (\<lambda>k. [Delay (g k), call]) ks)) call = length ks"
  using assms by (induction ks) simp_all

lemma clientCall_not_Delay: "Delay ms \<noteq> clientCall h cfg req"
  by (simp add: clientCall_def)

text \<open>
  C4 (amended). With retry count \<open>r \<ge> 0\<close> and a network on which every attempt fails,
  a send makes exactly \<open>r + 1\<close> client calls, one after the other, each with the
  arguments built from the request; before attempt \<open>k\<close>, for \<open>k\<close> from 2 to \<open>r + 1\<close>, it
  waits \<open>min (1000 * 2 ^ (k - 2)) 10000\<close> milliseconds (1000 before the second attempt);
  and it throws the error of the last attempt, classified by \<open>handleError\<close>.
\<close>

theorem retry_bound:
  assumes on: "enabled (features cfg)"
    and nonneg: "0 \<le> retries (mcpServer cfg)"
    and fail: "\<And>n. fst (makeHttpRequest h cfg net n mcpRequest) = Inl (errs n)"
  shows "sendMcpRequest h cfg net mcpRequest =
           (Inl (handleError (errs (nat (retries (mcpServer cfg))))),
            clientCall h cfg mcpRequest #
              concat (map (\<lambda>k. [Delay (min (1000 * 2 ^ (k - 2)) 10000),
                                  clientCall h cfg mcpRequest])
                          [2..<nat (retries (mcpServer cfg)) + 2]))
         \<and> count_list (snd (sendMcpRequest h cfg net mcpRequest))
               (clientCall h cfg mcpRequest)
             = nat (retries (mcpServer cfg)) + 1"
proof -
  have le: "int 0 \<le> retries (mcpServer cfg)" using nonneg by simp
  have two: "0 + 2 = (2::nat)" by simp
  have call: "snd (makeHttpRequest h cfg net n mcpRequest) = [clientCall h cfg mcpRequest]"
    for n
    by (simp add: makeHttpRequest_def makeAxiosRequest_def makeFetchRequest_def axios_def
          fetch_def clientCall_def Let_def
          split: axios_result.splits fetch_result.splits sum.splits)
  have attempt: "makeHttpRequest h cfg net n mcpRequest
                   = (Inl (errs n), [clientCall h cfg mcpRequest])" for n
    using fail [of n] call [of n] by (cases "makeHttpRequest h cfg net n mcpRequest") simp
  have send: "sendMcpRequest h cfg net mcpRequest = retryLoop h cfg net mcpRequest 0 None []"
    using on by (simp add: sendMcpRequest_def)
  have run: "sendMcpRequest h cfg net mcpRequest =
           (Inl (handleError (errs (nat (retries (mcpServer cfg))))),
            clientCall h cfg mcpRequest #
              concat (map (\<lambda>k. [Delay (min (1000 * 2 ^ (k - 2)) 10000),
                                  clientCall h cfg mcpRequest])
                          [2..<nat (retries (mcpServer cfg)) + 2]))"
    unfolding send
    using retryLoop_all_fail [of h cfg net mcpRequest errs "clientCall h cfg mcpRequest"
        0 None "[]", OF attempt le]
    by (simp only: two append_Nil)
  have len: "length [2..<nat (retries (mcpServer cfg)) + 2] = nat (retries (mcpServer cfg))"
    by (simp only: length_upt add_diff_cancel_right')
  have "count_list (snd (sendMcpRequest h cfg net mcpRequest))
               (clientCall h cfg mcpRequest)
             = nat (retries (mcpServer cfg)) + 1"
    unfolding run
    by (simp only: snd_conv count_list.simps count_calls [OF clientCall_not_Delay] len)
      simp
  with run show ?thesis by (rule conjI)
qed

theorem retry_bound_witness:
  "enabled (features defaultConfig) \<and> 0 \<le> retries (mcpServer defaultConfig)
   \<and> (\<forall>n. fst (makeHttpRequest exampleHost defaultConfig unreachableNetwork n exampleRequest)
            = Inl (JsError ''TypeError'' ''fetch failed''))
   \<and> sendMcpRequest exampleHost defaultConfig unreachableNetwork exampleRequest =
       (Inl (McpError CONNECTION_ERROR ''Network request failed'' None),
        [FetchCall ''http://localhost:3000/mcp''
           (requestOptions exampleHost defaultConfig exampleRequest),
         Delay 1000,
         FetchCall ''http://localhost:3000/mcp''
           (requestOptions exampleHost defaultConfig exampleRequest),
         Delay 2000,
         FetchCall ''http://localhost:3000/mcp''
           (requestOptions exampleHost defaultConfig exampleRequest)])
   \<and> count_list (snd (sendMcpRequest exampleHost defaultConfig unreachableNetwork exampleRequest))
        (FetchCall ''http://localhost:3000/mcp''
           (requestOptions exampleHost defaultConfig exampleRequest)) = 3"
proof -
  have on: "enabled (features defaultConfig)" by (simp add: defaultConfig_fields)
  have nonneg: "0 \<le> retries (mcpServer defaultConfig)" by (simp add: defaultConfig_fields)
  have fail: "fst (makeHttpRequest exampleHost defaultConfig unreachableNetwork n exampleRequest)
            = Inl (JsError ''TypeError'' ''fetch failed'')" for n
    by (simp add: makeHttpRequest_def makeFetchRequest_def fetch_def fetchCatch_def
          unreachableNetwork_def defaultConfig_fields)
  have range: "[2..<nat 2 + 2] = [2, 3]" by (simp add: upt_rec)
  have call: "clientCall exampleHost defaultConfig exampleRequest
                = FetchCall ''http://localhost:3000/mcp''
                    (requestOptions exampleHost defaultConfig exampleRequest)"
    by (simp add: clientCall_def defaultConfig_def)
  from retry_bound [OF on nonneg fail] on nonneg fail
  show ?thesis
    by (simp add: defaultConfig_fields(1) range handleError_def call)
qed

text \<open>
  C4 as stated gives the delay before attempt \<open>k\<close> as \<open>min (1000 * 2 ^ (k - 1)) 10000\<close>,
  which is 2000 before the second attempt. With one retry the only delay is 1000.
\<close>

theorem retry_delay_counterexample:
  "snd (sendMcpRequest exampleHost oneRetryConfig unreachableNetwork exampleRequest)
     = [FetchCall ''http://localhost:3000/mcp''
          (requestOptions exampleHost oneRetryConfig exampleRequest),
        Delay 1000,
        FetchCall ''http://localhost:3000/mcp''
          (requestOptions exampleHost oneRetryConfig exampleRequest)]
   \<and> (1000::int) \<noteq> min (1000 * 2 ^ (2 - 1)) 10000"
proof -
  have f: "retries (mcpServer oneRetryConfig) = 1" "enabled (features oneRetryConfig)"
    "library (httpClient oneRetryConfig) = Fetch"
    by (simp_all add: oneRetryConfig_def defaultConfig_def)
  have call: "clientCall exampleHost oneRetryConfig exampleRequest
                = FetchCall ''http://localhost:3000/mcp''
                    (requestOptions exampleHost oneRetryConfig exampleRequest)"
    by (simp add: clientCall_def oneRetryConfig_def defaultConfig_def)
  show ?thesis
    by (simp add: sendMcpRequest_def f retryLoop.simps unreachable_attempt [OF f(3)]
          Let_def call)
qed

section \<open>The request on the wire across retries\<close>

text \<open>The trace of the loop only grows, every event it adds is a delay or the client
  call built from the request it was given, and when it makes an attempt at all the
  first event it adds is that call.\<close>

lemma retryLoop_events:
  assumes call: "\<And>n. snd (makeHttpRequest h cfg net n req) = [call]"
  shows "set (snd (retryLoop h cfg net req a lastError tr))
           \<subseteq> set tr \<union> {call} \<union> range Delay"
proof (induction "nat (retries (mcpServer cfg) + 1 - int a)" arbitrary: a lastError tr)
  case 0
  then have stop: "\<not> int a \<le> retries (mcpServer cfg)" by linarith
  show ?case
    by (cases lastError) (auto simp add: retryLoop_stop [OF stop])
next
  case (Suc d)
  then have go: "int a \<le> retries (mcpServer cfg)" by linarith
  have d: "d = nat (retries (mcpServer cfg) + 1 - int (a + 1))"
    using Suc.hyps(2) by linarith
  obtain outcome where mk: "makeHttpRequest h cfg net a req = (outcome, [call])"
    using call [of a] by (cases "makeHttpRequest h cfg net a req") simp
  show ?case
  proof (cases outcome)
    case (Inr response)
    show ?thesis by (auto simp add: retryLoop_success [OF go mk [unfolded Inr]])
  next
    case (Inl err)
    note failed = mk [unfolded Inl]
    show ?thesis
    proof (cases "int (a + 1) \<le> retries (mcpServer cfg)")
      case True
      from Suc.hyps(1) [OF d, of "Some err"
          "(tr @ [call]) @ [Delay (min (1000 * 2 ^ (a + 1 - 1)) 10000)]"]
      show ?thesis
        unfolding retryLoop_retry [OF go failed True] by auto
    next
      case False
      show ?thesis by (auto simp add: retryLoop_exhausted [OF go failed False])
    qed
  qed
qed

lemma retryLoop_extends:
  "\<exists>suffix. snd (retryLoop h cfg net req a lastError tr) = tr @ suffix"
proof (induction "nat (retries (mcpServer cfg) + 1 - int a)" arbitrary: a lastError tr)
  case 0
  then have stop: "\<not> int a \<le> retries (mcpServer cfg)" by linarith
  show ?case
    by (cases lastError) (simp_all add: retryLoop_stop [OF stop])
next
  case (Suc d)
  then have go: "int a \<le> retries (mcpServer cfg)" by linarith
  have d: "d = nat (retries (mcpServer cfg) + 1 - int (a + 1))"
    using Suc.hyps(2) by linarith
  obtain outcome calls where mk: "makeHttpRequest h cfg net a req = (outcome, calls)"
    by (cases "makeHttpRequest h cfg net a req")
  show ?case
  proof (cases outcome)
    case (Inr response)
    show ?thesis by (simp add: retryLoop_success [OF go mk [unfolded Inr]])
  next
    case (Inl err)
    note failed = mk [unfolded Inl]
    show ?thesis
    proof (cases "int (a + 1) \<le> retries (mcpServer cfg)")
      case True
      from Suc.hyps(1) [OF d, of "Some err"
          "(tr @ calls) @ [Delay (min (1000 * 2 ^ (a + 1 - 1)) 10000)]"]
      obtain suffix where
        "snd (retryLoop h cfg net req (a + 1) (Some err)
                ((tr @ calls) @ [Delay (min (1000 * 2 ^ (a + 1 - 1)) 10000)]))
           = ((tr @ calls) @ [Delay (min (1000 * 2 ^ (a + 1 - 1)) 10000)]) @ suffix"
        by blast
      then show ?thesis
        unfolding retryLoop_retry [OF go failed True] by simp
    next
      case False
      show ?thesis by (simp add: retryLoop_exhausted [OF go failed False])
    qed
  qed
qed

lemma retryLoop_first_call:
  assumes go: "int a \<le> retries (mcpServer cfg)"
    and call: "snd (makeHttpRequest h cfg net a req) = [call]"
  shows "\<exists>rest. snd (retryLoop h cfg net req a lastError tr) = tr @ call # rest"
proof -
  obtain outcome where mk: "makeHttpRequest h cfg net a req = (outcome, [call])"
    using call by (cases "makeHttpRequest h cfg net a req") simp
  show ?thesis
  proof (cases outcome)
    case (Inr response)
    show ?thesis by (simp add: retryLoop_success [OF go mk [unfolded Inr]])
  next
    case (Inl err)
    note failed = mk [unfolded Inl]
    show ?thesis
    proof (cases "int (a + 1) \<le> retries (mcpServer cfg)")
      case True
      from retryLoop_extends [of h cfg net req "a + 1" "Some err"
          "(tr @ [call]) @ [Delay (min (1000 * 2 ^ (a + 1 - 1)) 10000)]"]
      obtain suffix where
        "snd (retryLoop h cfg net req (a + 1) (Some err)
                ((tr @ [call]) @ [Delay (min (1000 * 2 ^ (a + 1 - 1)) 10000)]))
           = ((tr @ [call]) @ [Delay (min (1000 * 2 ^ (a + 1 - 1)) 10000)]) @ suffix"
        by blast
      then show ?thesis
        unfolding retryLoop_retry [OF go failed True] by simp
    next
      case False
      show ?thesis by (simp add: retryLoop_exhausted [OF go failed False])
    qed
  qed
qed

lemma sendMcpRequest_events:
  assumes "\<And>n. snd (makeHttpRequest h cfg net n req) = [call]"
  shows "set (snd (sendMcpRequest h cfg net req)) \<subseteq> {call} \<union> range Delay"
  using retryLoop_events [of h cfg net req call 0 None "[]", OF assms]
  by (simp add: sendMcpRequest_def)

lemma sendMcpRequest_first_call:
  assumes "enabled (features cfg)" and "0 \<le> retries (mcpServer cfg)"
    and "snd (makeHttpRequest h cfg net 0 req) = [call]"
  shows "\<exists>rest. snd (sendMcpRequest h cfg net req) = call # rest"
proof -
  have "int 0 \<le> retries (mcpServer cfg)" using assms(2) by simp
  from retryLoop_first_call [OF this assms(3), of None "[]"] assms(1)
  show ?thesis by (simp add: sendMcpRequest_def)
qed

text \<open>
  C9. The timestamp of the request of a turn is the reading of the clock taken when
  \<open>buildMcpRequest\<close> builds it. Every call that reaches an HTTP client in the turn,
  first attempt or retry, has as its body the serialization of that one request, so
  the timestamp on the wire is the same on every attempt. And a request is really
  sent: with the feature on, the turn not cancelled before the send and a retry count
  that is not negative, the trace begins with that call.
\<close>

theorem timestamp_stable_across_retries:
  assumes req: "req = buildMcpRequest h cfg t p (fst (getOrCreateSession h t sessions))"
  shows "timestamp req = nowTimestamp t
         \<and> (\<forall>ev \<in> set (network (handleChatRequest h cfg net t p sessions)).
               case ev of
                 FetchCall url options \<Rightarrow> body options = Some (jsonStringify h req)
               | AxiosCall config \<Rightarrow> axData config = Some (jsonStringify h req)
               | Delay ms \<Rightarrow> True)
         \<and> (enabled (features cfg) \<and> \<not> cancelledBeforeSend t
               \<and> 0 \<le> retries (mcpServer cfg)
             \<longrightarrow> (\<exists>rest. network (handleChatRequest h cfg net t p sessions)
                            = clientCall h cfg req # rest))"
proof -
  have call: "snd (makeHttpRequest h cfg net n req) = [clientCall h cfg req]" for n
    by (simp add: makeHttpRequest_def makeAxiosRequest_def makeFetchRequest_def axios_def
          fetch_def clientCall_def Let_def
          split: axios_result.splits fetch_result.splits sum.splits)
  have wire: "case clientCall h cfg req of
                FetchCall url options \<Rightarrow> body options = Some (jsonStringify h req)
              | AxiosCall config \<Rightarrow> axData config = Some (jsonStringify h req)
              | Delay ms \<Rightarrow> True"
    by (simp add: clientCall_def requestOptions_def axiosRequestConfig_def)
  have stamp: "timestamp req = nowTimestamp t"
    unfolding req by (simp add: buildMcpRequest_def Let_def)
  have sent: "network (handleChatRequest h cfg net t p sessions)
                = (if \<not> enabled (features cfg) \<or> cancelledBeforeSend t then []
                   else snd (sendMcpRequest h cfg net req))"
  proof -
    obtain session sessions1 where
      s: "getOrCreateSession h t sessions = (session, sessions1)"
      by (cases "getOrCreateSession h t sessions")
    obtain res tr where r:
      "sendMcpRequest h cfg net (buildMcpRequest h cfg t p session) = (res, tr)"
      by (cases "sendMcpRequest h cfg net (buildMcpRequest h cfg t p session)")
    show ?thesis
      unfolding req
      by (cases res; cases "handleMcpResponse cfg (projr res) p")
        (simp_all add: handleChatRequest_def s r Let_def)
  qed
  have every: "case ev of
                 FetchCall url options \<Rightarrow> body options = Some (jsonStringify h req)
               | AxiosCall config \<Rightarrow> axData config = Some (jsonStringify h req)
               | Delay ms \<Rightarrow> True"
    if "ev \<in> set (network (handleChatRequest h cfg net t p sessions))" for ev
  proof -
    from that have "ev \<in> set (snd (sendMcpRequest h cfg net req))"
      by (simp add: sent split: if_splits)
    with sendMcpRequest_events [of h cfg net req "clientCall h cfg req", OF call]
    have "ev = clientCall h cfg req \<or> (\<exists>ms. ev = Delay ms)" by auto
    with wire show ?thesis by auto
  qed
  have begins: "\<exists>rest. network (handleChatRequest h cfg net t p sessions)
                        = clientCall h cfg req # rest"
    if "enabled (features cfg) \<and> \<not> cancelledBeforeSend t \<and> 0 \<le> retries (mcpServer cfg)"
  proof -
    from that have on: "enabled (features cfg)" and nb: "\<not> cancelledBeforeSend t"
      and nonneg: "0 \<le> retries (mcpServer cfg)" by simp_all
    from sendMcpRequest_first_call [OF on nonneg call] on nb
    show ?thesis by (simp add: sent)
  qed
  from stamp every begins show ?thesis by blast
qed

theorem timestamp_stable_across_retries_witness:
  "enabled (features defaultConfig) \<and> \<not> cancelledBeforeSend exampleTurn
   \<and> 0 \<le> retries (mcpServer defaultConfig)
   \<and> timestamp turnRequest = 1700000000001
   \<and> network (handleChatRequest exampleHost defaultConfig unreachableNetwork exampleTurn
                ''hi'' Map.empty)
       = [FetchCall ''http://localhost:3000/mcp''
            (requestOptions exampleHost defaultConfig turnRequest),
          Delay 1000,
          FetchCall ''http://localhost:3000/mcp''
            (requestOptions exampleHost defaultConfig turnRequest),
          Delay 2000,
          FetchCall ''http://localhost:3000/mcp''
            (requestOptions exampleHost defaultConfig turnRequest)]
   \<and> body (requestOptions exampleHost defaultConfig turnRequest)
       = Some ''{prompt:hi,sessionId:session-k3j9x0q2a,timestamp:1700000000001}''"
proof -
  have turnRequest_fields:
    "timestamp turnRequest = 1700000000001" "prompt turnRequest = ''hi''"
    "sessionId turnRequest = ''session-k3j9x0q2a''"
    by (simp_all add: turnRequest_def buildMcpRequest_def getOrCreateSession_def
          exampleTurn_def Let_def)
  have on: "enabled (features defaultConfig)" by (simp add: defaultConfig_fields)
  have nb: "\<not> cancelledBeforeSend exampleTurn" by (simp add: exampleTurn_def)
  have nonneg: "0 \<le> retries (mcpServer defaultConfig)"
    by (simp add: defaultConfig_fields)
  have req: "turnRequest = buildMcpRequest exampleHost defaultConfig exampleTurn ''hi''
                             (fst (getOrCreateSession exampleHost exampleTurn Map.empty))"
    by (simp add: turnRequest_def)
  have call: "clientCall exampleHost defaultConfig turnRequest
                = FetchCall ''http://localhost:3000/mcp''
                    (requestOptions exampleHost defaultConfig turnRequest)"
    by (simp add: clientCall_def defaultConfig_def)
  have run: "sendMcpRequest exampleHost defaultConfig unreachableNetwork turnRequest
               = (Inl (McpError CONNECTION_ERROR ''Network request failed'' None),
                  [clientCall exampleHost defaultConfig turnRequest, Delay 1000,
                   clientCall exampleHost defaultConfig turnRequest, Delay 2000,
                   clientCall exampleHost defaultConfig turnRequest])"
    by (simp add: sendMcpRequest_def defaultConfig_fields retryLoop.simps
          makeHttpRequest_def makeFetchRequest_def fetch_def fetchCatch_def
          unreachableNetwork_def clientCall_def handleError_def Let_def)
  have trace: "network (handleChatRequest exampleHost defaultConfig unreachableNetwork
                          exampleTurn ''hi'' Map.empty)
                 = [clientCall exampleHost defaultConfig turnRequest, Delay 1000,
                    clientCall exampleHost defaultConfig turnRequest, Delay 2000,
                    clientCall exampleHost defaultConfig turnRequest]"
    using on nb
    by (simp add: handleChatRequest_def case_prod_beta Let_def req [symmetric] run)
  have wire: "body (requestOptions exampleHost defaultConfig turnRequest)
                = Some ''{prompt:hi,sessionId:session-k3j9x0q2a,timestamp:1700000000001}''"
    by (simp add: requestOptions_def exampleHost_def exampleStringify_def
          turnRequest_fields showInt_def showNat.simps digitChar_def)
  from timestamp_stable_across_retries [OF req, of unreachableNetwork]
    on nb nonneg trace wire turnRequest_fields(1)
  show ?thesis by (simp add: call)
qed

section \<open>Classification of HTTP status 429\<close>

text \<open>When every attempt of a send fails, the send throws the classified error of the
  last attempt.\<close>

lemma send_all_fail:
  assumes "enabled (features cfg)" and "0 \<le> retries (mcpServer cfg)"
    and fail: "\<And>n. fst (makeHttpRequest h cfg net n req) = Inl (errs n)"
  shows "fst (sendMcpRequest h cfg net req)
           = Inl (handleError (errs (nat (retries (mcpServer cfg)))))"
proof -
  have le: "int 0 \<le> retries (mcpServer cfg)" using assms(2) by simp
  have attempt: "makeHttpRequest h cfg net n req = (Inl (errs n), [clientCall h cfg req])"
    for n
    using fail [of n] makeHttpRequest_call [of h cfg net n req]
    by (cases "makeHttpRequest h cfg net n req") simp
  from retryLoop_all_fail [of h cfg net req errs "clientCall h cfg req" 0 None "[]",
      OF attempt le]
  have "fst (retryLoop h cfg net req 0 None [])
          = Inl (handleError (errs (nat (retries (mcpServer cfg)))))"
    by (simp only: fst_conv)
  with assms(1) show ?thesis by (simp add: sendMcpRequest_def)
qed

text \<open>The fetch path turns every response that is not \<open>ok\<close> into a \<open>SERVER_ERROR\<close>
  whose message holds the status; the axios path looks at the status.\<close>

lemma showInt_429: "showInt 429 = ''429''"
  by (simp add: showInt_def showNat.simps digitChar_def)

lemma fetch_status_429:
  "fetchExchange net n (endpoint (mcpServer cfg)) options = FetchResponse 429 statusText json
   \<Longrightarrow> fst (makeFetchRequest cfg net n options)
         = Inl (McpError SERVER_ERROR (''HTTP 429: '' @ statusText) None)"
  by (simp add: makeFetchRequest_def fetch_def fetchCatch_def showInt_429)

lemma axios_status_429:
  "axiosStatus e = Some 429 \<Longrightarrow>
   axiosCode e \<notin> {Some ''ECONNREFUSED'', Some ''ENOTFOUND'', Some ''ECONNABORTED''} \<Longrightarrow>
   handleAxiosError e = McpError RATE_LIMITED ''Rate limit exceeded'' None"
  by (simp add: handleAxiosError_def)

lemma axiosConfig_fields:
  "retries (mcpServer axiosConfig) = 2" "enabled (features axiosConfig)"
  "library (httpClient axiosConfig) = Axios"
  by (simp_all add: axiosConfig_def defaultConfig_def)

text \<open>
  C2. The endpoint answers 429 on every attempt. Under the default configuration (fetch)
  the send ends with \<open>SERVER_ERROR\<close> and the message \<open>HTTP 429: Too Many Requests\<close>;
  under the same configuration with axios it ends with \<open>RATE_LIMITED\<close>. The two
  clients do not classify the status alike.
\<close>

theorem status_429_under_fetch_and_axios:
  "fst (sendMcpRequest exampleHost defaultConfig rateLimitedNetwork exampleRequest)
     = Inl (McpError SERVER_ERROR ''HTTP 429: Too Many Requests'' None)
   \<and> fst (sendMcpRequest exampleHost axiosConfig rateLimitedNetwork exampleRequest)
     = Inl (McpError RATE_LIMITED ''Rate limit exceeded'' None)"
proof -
  have f: "fst (makeHttpRequest exampleHost defaultConfig rateLimitedNetwork n exampleRequest)
             = Inl (McpError SERVER_ERROR ''HTTP 429: Too Many Requests'' None)" for n
    by (simp add: makeHttpRequest_def defaultConfig_fields fetch_status_429
          rateLimitedNetwork_def)
  have a: "fst (makeHttpRequest exampleHost axiosConfig rateLimitedNetwork n exampleRequest)
             = Inl (McpError RATE_LIMITED ''Rate limit exceeded'' None)" for n
    by (simp add: makeHttpRequest_def axiosConfig_fields makeAxiosRequest_def axios_def
          rateLimitedNetwork_def handleAxiosError_def)
  have "fst (sendMcpRequest exampleHost defaultConfig rateLimitedNetwork exampleRequest)
     = Inl (McpError SERVER_ERROR ''HTTP 429: Too Many Requests'' None)"
    using send_all_fail [OF defaultConfig_fields(2) _ f]
    by (simp add: defaultConfig_fields handleError_def)
  moreover
  have "fst (sendMcpRequest exampleHost axiosConfig rateLimitedNetwork exampleRequest)
     = Inl (McpError RATE_LIMITED ''Rate limit exceeded'' None)"
    using send_all_fail [OF axiosConfig_fields(2) _ a]
    by (simp add: axiosConfig_fields handleError_def)
  ultimately show ?thesis by simp
qed

section \<open>Properties of a chat turn\<close>

text \<open>What a turn writes when the send throws, and when it returns a response that
  \<open>handleMcpResponse\<close> rejects. The first does not look at the cancellation token
  again.\<close>

lemma turn_when_send_throws:
  assumes "enabled (features cfg)" and "\<not> cancelledBeforeSend t"
    and "fst (sendMcpRequest h cfg net
                (buildMcpRequest h cfg t p (fst (getOrCreateSession h t sessions)))) = Inl e"
  shows "streamOutput (handleChatRequest h cfg net t p sessions)
           = Progress ''Enhancing prompt with MCP server...'' # handleMcpError e p"
proof -
  obtain session sessions1 where s: "getOrCreateSession h t sessions = (session, sessions1)"
    by (cases "getOrCreateSession h t sessions")
  obtain res tr where r:
    "sendMcpRequest h cfg net (buildMcpRequest h cfg t p session) = (res, tr)"
    by (cases "sendMcpRequest h cfg net (buildMcpRequest h cfg t p session)")
  from assms(3) s r have "res = Inl e" by simp
  with assms(1,2) s r show ?thesis
    by (simp add: handleChatRequest_def)
qed

lemma turn_when_send_returns:
  assumes "enabled (features cfg)" and "\<not> cancelledBeforeSend t"
    and "\<not> cancelledAfterSend t"
    and "fst (sendMcpRequest h cfg net
                (buildMcpRequest h cfg t p (fst (getOrCreateSession h t sessions))))
           = Inr response"
    and "handleMcpResponse cfg response p = Inl e"
  shows "streamOutput (handleChatRequest h cfg net t p sessions)
           = Progress ''Enhancing prompt with MCP server...'' # handleMcpError e p"
proof -
  obtain session sessions1 where s: "getOrCreateSession h t sessions = (session, sessions1)"
    by (cases "getOrCreateSession h t sessions")
  obtain res tr where r:
    "sendMcpRequest h cfg net (buildMcpRequest h cfg t p session) = (res, tr)"
    by (cases "sendMcpRequest h cfg net (buildMcpRequest h cfg t p session)")
  from assms(4) s r have "res = Inr response" by simp
  with assms(1,2,3,5) s r show ?thesis
    by (simp add: handleChatRequest_def)
qed

lemma first_attempt_returns:
  assumes "enabled (features cfg)" and "0 \<le> retries (mcpServer cfg)"
    and "fst (makeHttpRequest h cfg net 0 req) = Inr response"
  shows "sendMcpRequest h cfg net req = (Inr response, [clientCall h cfg req])"
proof -
  have le: "int 0 \<le> retries (mcpServer cfg)" using assms(2) by simp
  have attempt: "makeHttpRequest h cfg net 0 req = (Inr response, [clientCall h cfg req])"
    using assms(3) makeHttpRequest_call [of h cfg net 0 req]
    by (cases "makeHttpRequest h cfg net 0 req") simp
  from retryLoop_success [OF le attempt, of None "[]"] assms(1)
  show ?thesis by (simp add: sendMcpRequest_def)
qed

lemma disabledConfig_off: "\<not> enabled (features disabledConfig)"
  by (simp add: disabledConfig_def)

text \<open>
  C5 (amended). With the feature flag off, a turn writes exactly one segment: the label
  \<open>**Original prompt:**\<close>, the prompt as it was given, and the note that the integration
  is disabled. It makes no network call and leaves the session table as it was. At the
  transport, \<open>sendMcpRequest\<close> returns at once, with success and the request's prompt as
  the enhanced prompt, and no call of a client.
\<close>

theorem pass_through_when_disabled:
  assumes "\<not> enabled (features cfg)"
  shows "streamOutput (handleChatRequest h cfg net t p sessions)
           = [Markdown (''**Original prompt:** '' @ p @ nl @ nl
                        @ ''*Note: MCP integration is currently disabled.*'')]
         \<and> network (handleChatRequest h cfg net t p sessions) = []
         \<and> sessionsAfter (handleChatRequest h cfg net t p sessions) = sessions
         \<and> sendMcpRequest h cfg net mcpRequest
             = (Inr \<lparr>success = True,
                     data = Some \<lparr>enhancedPrompt = Some (prompt mcpRequest),
                                  additionalContext = None, suggestions = None,
                                  responseMetadata = None\<rparr>,
                     error = None\<rparr>, [])"
  using assms by (simp add: handleChatRequest_def sendMcpRequest_def)

theorem pass_through_when_disabled_witness:
  "\<not> enabled (features disabledConfig)
   \<and> streamOutput (handleChatRequest exampleHost disabledConfig unreachableNetwork exampleTurn
                     ''hi'' Map.empty)
       = [Markdown (''**Original prompt:** hi'' @ nl @ nl
                    @ ''*Note: MCP integration is currently disabled.*'')]
   \<and> network (handleChatRequest exampleHost disabledConfig unreachableNetwork exampleTurn
                ''hi'' Map.empty) = []
   \<and> sessionsAfter (handleChatRequest exampleHost disabledConfig unreachableNetwork
                      exampleTurn ''hi'' Map.empty) = Map.empty
   \<and> fst (sendMcpRequest exampleHost disabledConfig unreachableNetwork exampleRequest)
       = Inr \<lparr>success = True,
              data = Some \<lparr>enhancedPrompt = Some ''hi'', additionalContext = None,
                           suggestions = None, responseMetadata = None\<rparr>,
              error = None\<rparr>"
  using pass_through_when_disabled [OF disabledConfig_off, of exampleHost unreachableNetwork
          exampleTurn "''hi''" Map.empty exampleRequest]
  by (simp add: disabledConfig_off exampleRequest_def)

text \<open>
  C5 as stated has the turn yield exactly the original prompt. The segment written for
  the prompt \<open>hi\<close> is not \<open>hi\<close>: it carries the label and the note around it.
\<close>

theorem pass_through_output_counterexample:
  "streamOutput (handleChatRequest exampleHost disabledConfig unreachableNetwork exampleTurn
                   ''hi'' Map.empty) \<noteq> [Markdown ''hi'']"
  by (simp add: handleChatRequest_def disabledConfig_off)

section \<open>Failures shown to the user\<close>

lemma unreachable_send:
  assumes "enabled (features cfg)" and "0 \<le> retries (mcpServer cfg)"
    and "library (httpClient cfg) = Fetch"
  shows "fst (sendMcpRequest h cfg unreachableNetwork req)
           = Inl (McpError CONNECTION_ERROR ''Network request failed'' None)"
proof -
  have fail: "fst (makeHttpRequest h cfg unreachableNetwork n req)
                = Inl (JsError ''TypeError'' ''fetch failed'')" for n
    by (simp add: unreachable_attempt [OF assms(3)])
  from send_all_fail [OF assms(1,2) fail] show ?thesis
    by (simp add: handleError_def)
qed

text \<open>
  C6 (amended). When the send fails with an error of any of the seven types, the turn
  does not abort: it writes one markdown segment after the progress notice. The segment
  holds the heading, then for \<open>CONNECTION_ERROR\<close>, \<open>AUTHENTICATION_ERROR\<close>,
  \<open>TIMEOUT_ERROR\<close> and \<open>RATE_LIMITED\<close> the fixed sentence of that type, and for
  \<open>INVALID_RESPONSE\<close>, \<open>SERVER_ERROR\<close> and \<open>CONFIGURATION_ERROR\<close> the text \<open>Error:\<close>
  followed by the error's own message, then the fallback notice and the original prompt
  as it was given.
\<close>

theorem fallback_on_failure:
  assumes "enabled (features cfg)" and "\<not> cancelledBeforeSend t"
    and "fst (sendMcpRequest h cfg net
                (buildMcpRequest h cfg t p (fst (getOrCreateSession h t sessions))))
           = Inl (McpError kind msg details)"
  shows "streamOutput (handleChatRequest h cfg net t p sessions)
           = [Progress ''Enhancing prompt with MCP server...'',
              Markdown
                (crossMark @ '' **MCP Enhancement Failed**'' @ nl @ nl
                 @ (case kind of
                      CONNECTION_ERROR \<Rightarrow>
                        ''Unable to connect to MCP server. Please check your configuration.''
                    | AUTHENTICATION_ERROR \<Rightarrow>
                        ''Authentication failed. Please check your API credentials.''
                    | TIMEOUT_ERROR \<Rightarrow>
                        ''Request timed out. The MCP server may be overloaded.''
                    | RATE_LIMITED \<Rightarrow>
                        ''Rate limit exceeded. Please wait before making another request.''
                    | INVALID_RESPONSE \<Rightarrow> ''Error: '' @ msg
                    | SERVER_ERROR \<Rightarrow> ''Error: '' @ msg
                    | CONFIGURATION_ERROR \<Rightarrow> ''Error: '' @ msg)
                 @ nl @ nl @ ''**Fallback:** Using original prompt without enhancement.''
                 @ nl @ nl @ ''**Original Prompt:** '' @ p)]"
  unfolding turn_when_send_throws [OF assms]
  by (cases kind) (simp_all add: handleMcpError_def)

theorem fallback_on_failure_witness:
  "enabled (features defaultConfig) \<and> \<not> cancelledBeforeSend exampleTurn
   \<and> fst (sendMcpRequest exampleHost defaultConfig unreachableNetwork
            (buildMcpRequest exampleHost defaultConfig exampleTurn ''hi''
               (fst (getOrCreateSession exampleHost exampleTurn Map.empty))))
       = Inl (McpError CONNECTION_ERROR ''Network request failed'' None)
   \<and> streamOutput (handleChatRequest exampleHost defaultConfig unreachableNetwork exampleTurn
                     ''hi'' Map.empty)
       = [Progress ''Enhancing prompt with MCP server...'',
          Markdown
            (crossMark @ '' **MCP Enhancement Failed**'' @ nl @ nl
             @ ''Unable to connect to MCP server. Please check your configuration.''
             @ nl @ nl @ ''**Fallback:** Using original prompt without enhancement.''
             @ nl @ nl @ ''**Original Prompt:** hi'')]"
proof -
  have on: "enabled (features defaultConfig)" by (simp add: defaultConfig_fields)
  have nb: "\<not> cancelledBeforeSend exampleTurn" by (simp add: exampleTurn_def)
  have run: "fst (sendMcpRequest exampleHost defaultConfig unreachableNetwork
            (buildMcpRequest exampleHost defaultConfig exampleTurn ''hi''
               (fst (getOrCreateSession exampleHost exampleTurn Map.empty))))
       = Inl (McpError CONNECTION_ERROR ''Network request failed'' None)"
    by (rule unreachable_send) (simp_all add: defaultConfig_fields)
  from fallback_on_failure [OF on nb run] on nb run show ?thesis by simp
qed

text \<open>
  C6 as stated gives every error type one fixed sentence. Two \<open>SERVER_ERROR\<close>s with
  different messages are shown with different texts, and a \<open>SERVER_ERROR\<close> and an
  \<open>INVALID_RESPONSE\<close> with the same message are shown with the same text.
\<close>

theorem fallback_text_counterexample:
  "handleMcpError (McpError SERVER_ERROR ''HTTP 500: Internal Server Error'' None) ''hi''
     \<noteq> handleMcpError (McpError SERVER_ERROR ''HTTP 502: Bad Gateway'' None) ''hi''
   \<and> handleMcpError (McpError SERVER_ERROR ''HTTP 500: Internal Server Error'' None) ''hi''
     = handleMcpError (McpError INVALID_RESPONSE ''HTTP 500: Internal Server Error'' None)
         ''hi''"
  by (simp add: handleMcpError_def)

section \<open>A refusal in the body of a 200 response\<close>

lemma fetch_status_200:
  assumes "library (httpClient cfg) = Fetch"
    and "fetchExchange net n (endpoint (mcpServer cfg)) (requestOptions h cfg req)
           = FetchResponse 200 statusText (Inr response)"
  shows "fst (makeHttpRequest h cfg net n req) = Inr response"
  using assms by (simp add: makeHttpRequest_def makeFetchRequest_def fetch_def)

lemma axios_status_200:
  assumes "library (httpClient cfg) = Axios"
    and "axiosExchange net n (axiosRequestConfig cfg (requestOptions h cfg req))
           = AxiosResolved 200 response"
  shows "fst (makeHttpRequest h cfg net n req) = Inr response"
  using assms by (simp add: makeHttpRequest_def makeAxiosRequest_def axios_def)

text \<open>
  C7. The endpoint answers the first attempt with status 200 and the body
  \<open>{success: false, error: {code: "X", message: "bad"}}\<close>, under fetch or under axios.
  The send returns that body, whose \<open>success\<close> is false; \<open>handleMcpResponse\<close> throws a
  \<open>SERVER_ERROR\<close> with the message \<open>bad\<close>; and the turn writes the failure segment with
  \<open>Error: bad\<close> and the original prompt.
\<close>

theorem refusal_in_200_body_is_failure:
  assumes on: "enabled (features cfg)" and nonneg: "0 \<le> retries (mcpServer cfg)"
    and nb: "\<not> cancelledBeforeSend t" and na: "\<not> cancelledAfterSend t"
    and req: "req = buildMcpRequest h cfg t p (fst (getOrCreateSession h t sessions))"
    and reply:
      "(library (httpClient cfg) = Fetch
          \<and> fetchExchange net 0 (endpoint (mcpServer cfg)) (requestOptions h cfg req)
              = FetchResponse 200 statusText (Inr refusal))
       \<or> (library (httpClient cfg) = Axios
          \<and> axiosExchange net 0 (axiosRequestConfig cfg (requestOptions h cfg req))
              = AxiosResolved 200 refusal)"
  shows "fst (sendMcpRequest h cfg net req) = Inr refusal
         \<and> success refusal = False
         \<and> handleMcpResponse cfg refusal p = Inl (McpError SERVER_ERROR ''bad'' None)
         \<and> streamOutput (handleChatRequest h cfg net t p sessions)
             = [Progress ''Enhancing prompt with MCP server...'',
                Markdown
                  (crossMark @ '' **MCP Enhancement Failed**'' @ nl @ nl
                   @ ''Error: bad''
                   @ nl @ nl @ ''**Fallback:** Using original prompt without enhancement.''
                   @ nl @ nl @ ''**Original Prompt:** '' @ p)]"
proof -
  from reply have "fst (makeHttpRequest h cfg net 0 req) = Inr refusal"
    by (auto intro: fetch_status_200 axios_status_200)
  from first_attempt_returns [OF on nonneg this]
  have sent: "fst (sendMcpRequest h cfg net req) = Inr refusal" by simp
  have rejected: "handleMcpResponse cfg refusal p = Inl (McpError SERVER_ERROR ''bad'' None)"
    by (simp add: handleMcpResponse_def refusal_def)
  have "streamOutput (handleChatRequest h cfg net t p sessions)
          = Progress ''Enhancing prompt with MCP server...''
              # handleMcpError (McpError SERVER_ERROR ''bad'' None) p"
    by (rule turn_when_send_returns [OF on nb na sent [unfolded req] rejected])
  with sent rejected show ?thesis
    by (simp add: handleMcpError_def refusal_def)
qed

theorem refusal_in_200_body_is_failure_witness:
  "enabled (features defaultConfig) \<and> 0 \<le> retries (mcpServer defaultConfig)
   \<and> \<not> cancelledBeforeSend exampleTurn \<and> \<not> cancelledAfterSend exampleTurn
   \<and> library (httpClient defaultConfig) = Fetch
   \<and> fetchExchange refusingNetwork 0 (endpoint (mcpServer defaultConfig))
        (requestOptions exampleHost defaultConfig
           (buildMcpRequest exampleHost defaultConfig exampleTurn ''hi''
              (fst (getOrCreateSession exampleHost exampleTurn Map.empty))))
       = FetchResponse 200 ''OK'' (Inr refusal)
   \<and> streamOutput (handleChatRequest exampleHost defaultConfig refusingNetwork exampleTurn
                     ''hi'' Map.empty)
       = [Progress ''Enhancing prompt with MCP server...'',
          Markdown
            (crossMark @ '' **MCP Enhancement Failed**'' @ nl @ nl
             @ ''Error: bad''
             @ nl @ nl @ ''**Fallback:** Using original prompt without enhancement.''
             @ nl @ nl @ ''**Original Prompt:** hi'')]"
proof -
  have on: "enabled (features defaultConfig)" by (simp add: defaultConfig_fields)
  have nonneg: "0 \<le> retries (mcpServer defaultConfig)" by (simp add: defaultConfig_fields)
  have nb: "\<not> cancelledBeforeSend exampleTurn" by (simp add: exampleTurn_def)
  have na: "\<not> cancelledAfterSend exampleTurn" by (simp add: exampleTurn_def)
  have lib: "library (httpClient defaultConfig) = Fetch" by (simp add: defaultConfig_fields)
  have reply: "fetchExchange refusingNetwork 0 (endpoint (mcpServer defaultConfig))
        (requestOptions exampleHost defaultConfig
           (buildMcpRequest exampleHost defaultConfig exampleTurn ''hi''
              (fst (getOrCreateSession exampleHost exampleTurn Map.empty))))
       = FetchResponse 200 ''OK'' (Inr refusal)"
    by (simp add: refusingNetwork_def)
  from refusal_in_200_body_is_failure [OF on nonneg nb na refl disjI1 [OF conjI [OF lib reply]]]
    on nonneg nb na lib reply
  show ?thesis by simp
qed

section \<open>Cancellation\<close>

text \<open>An abort of the fetch request is reported as a timeout whatever caused it.\<close>

lemma noRetryConfig_fields:
  "retries (mcpServer noRetryConfig) = 0" "enabled (features noRetryConfig)"
  "library (httpClient noRetryConfig) = Fetch"
  by (simp_all add: noRetryConfig_def defaultConfig_def)

lemma fetch_abort_is_timeout:
  "fetchExchange net n (endpoint (mcpServer cfg)) options = FetchAborted cause \<Longrightarrow>
   makeFetchRequest cfg net n options
     = (Inl (McpError TIMEOUT_ERROR ''Request timed out'' None),
        [FetchCall (endpoint (mcpServer cfg)) options])"
  by (simp add: makeFetchRequest_def fetch_def fetchCatch_def)

text \<open>When the send returns a response and the token is set by then, the turn writes
  nothing after the progress notice.\<close>

lemma turn_cancelled_after_response:
  assumes "enabled (features cfg)" and "\<not> cancelledBeforeSend t"
    and "cancelledAfterSend t"
    and "fst (sendMcpRequest h cfg net
                (buildMcpRequest h cfg t p (fst (getOrCreateSession h t sessions))))
           = Inr response"
  shows "streamOutput (handleChatRequest h cfg net t p sessions)
           = [Progress ''Enhancing prompt with MCP server...'']"
proof -
  obtain session sessions1 where s: "getOrCreateSession h t sessions = (session, sessions1)"
    by (cases "getOrCreateSession h t sessions")
  obtain res tr where r:
    "sendMcpRequest h cfg net (buildMcpRequest h cfg t p session) = (res, tr)"
    by (cases "sendMcpRequest h cfg net (buildMcpRequest h cfg t p session)")
  from assms(4) s r have "res = Inr response" by simp
  with assms(1,2,3) s r show ?thesis
    by (simp add: handleChatRequest_def)
qed

text \<open>
  C3. The only attempt of a send is aborted by \<open>cancelRequests\<close>, not by the timeout
  timer, and the cancellation token is set by the time the send is over. The fetch
  client reports \<open>TIMEOUT_ERROR\<close>, and the turn writes the timeout message with the
  fallback and the original prompt.
\<close>

theorem external_cancellation_shown_as_timeout:
  "fetchExchange cancelledNetwork 0 (endpoint (mcpServer noRetryConfig))
       (requestOptions exampleHost noRetryConfig exampleRequest)
     = FetchAborted CancelRequests
   \<and> fst (makeFetchRequest noRetryConfig cancelledNetwork 0
            (requestOptions exampleHost noRetryConfig exampleRequest))
     = Inl (McpError TIMEOUT_ERROR ''Request timed out'' None)
   \<and> cancelledAfterSend cancelledTurn
   \<and> streamOutput (handleChatRequest exampleHost noRetryConfig cancelledNetwork cancelledTurn
                     ''hi'' Map.empty)
     = [Progress ''Enhancing prompt with MCP server...'',
        Markdown
          (crossMark @ '' **MCP Enhancement Failed**'' @ nl @ nl
           @ ''Request timed out. The MCP server may be overloaded.''
           @ nl @ nl @ ''**Fallback:** Using original prompt without enhancement.''
           @ nl @ nl @ ''**Original Prompt:** hi'')]"
proof -
  have aborted: "fetchExchange cancelledNetwork n url options = FetchAborted CancelRequests"
    for n url options
    by (simp add: cancelledNetwork_def)
  have attempt: "fst (makeHttpRequest exampleHost noRetryConfig cancelledNetwork n req)
                   = Inl (McpError TIMEOUT_ERROR ''Request timed out'' None)" for n req
    by (simp add: makeHttpRequest_def noRetryConfig_fields fetch_abort_is_timeout [OF aborted])
  have send: "fst (sendMcpRequest exampleHost noRetryConfig cancelledNetwork req)
                = Inl (McpError TIMEOUT_ERROR ''Request timed out'' None)" for req
    using send_all_fail [OF noRetryConfig_fields(2) _ attempt]
    by (simp add: noRetryConfig_fields handleError_def)
  have nb: "\<not> cancelledBeforeSend cancelledTurn"
    by (simp add: cancelledTurn_def exampleTurn_def)
  have after: "cancelledAfterSend cancelledTurn"
    by (simp add: cancelledTurn_def)
  have "streamOutput (handleChatRequest exampleHost noRetryConfig cancelledNetwork cancelledTurn
                     ''hi'' Map.empty)
          = Progress ''Enhancing prompt with MCP server...''
              # handleMcpError (McpError TIMEOUT_ERROR ''Request timed out'' None) ''hi''"
    by (rule turn_when_send_throws [OF noRetryConfig_fields(2) nb send])
  with aborted fetch_abort_is_timeout [OF aborted] after show ?thesis
    by (simp add: handleMcpError_def)
qed

end
